theory Spec2Isabelle
  imports Complex_Main "HOL-Library.Sublist"
begin

section \<open>Python values and errors\<close>

text \<open>
  The script \<open>mvar_plot_legacy.py\<close> expands three axis texts into value lists, renders one
  image per combination and composes one grid per page. Exceptions are modelled as values:
  a computation returns \<open>py_error + 'a\<close>, with \<open>Inl\<close> the exception that was raised.
  Text is ASCII: a \<open>string\<close> is a list of 8-bit characters.
\<close>

datatype py_error =
    ValueError
  | ZeroDivisionError
  | IndexError
  | AttributeError
  | TypeError
  | NameError
  | CsvError
  | RuntimeError string
  | HostError string
  | NonFiniteFloat

text \<open>
  \<open>RuntimeError\<close> carries the message of the \<open>raise\<close> statement. \<open>HostError\<close> is any
  exception raised by the host's \<open>process_images\<close>. \<open>NonFiniteFloat\<close> is not a Python
  exception: Python floats are modelled by the rationals they denote, and \<open>float\<close> applied
  to a spelling of infinity or NaN has no rational value, so the model stops there.
\<close>

datatype pyvalue =
    VNone
  | VInt int
  | VFloat rat
  | VStr string
  | VTuple "string list"

subsection \<open>Characters and whitespace\<close>

definition isspace :: "char \<Rightarrow> bool" where
  "isspace c = (of_char c \<in> {9, 10, 11, 12, 13, 28, 29, 30, 31, 32 :: nat})"

definition isdigit :: "char \<Rightarrow> bool" where
  "isdigit c = (48 \<le> (of_char c :: nat) \<and> (of_char c :: nat) \<le> 57)"

definition digit_val :: "char \<Rightarrow> nat" where
  "digit_val c = of_char c - 48"

definition strip :: "string \<Rightarrow> string" where
  "strip s = rev (dropWhile isspace (rev (dropWhile isspace s)))"

definition lower_char :: "char \<Rightarrow> char" where
  "lower_char c =
     (if 65 \<le> (of_char c :: nat) \<and> (of_char c :: nat) \<le> 90
      then char_of ((of_char c :: nat) + 32) else c)"

definition lower :: "string \<Rightarrow> string" where
  "lower s = map lower_char s"

subsection \<open>\<open>int(str)\<close>\<close>

text \<open>
  \<open>int\<close> on a string: surrounding whitespace is dropped, one sign is allowed, and the
  rest must be decimal digits, single underscores allowed between digits. Anything else
  raises \<open>ValueError\<close>; in particular whitespace between sign and digits does.
\<close>

fun digits_ok :: "string \<Rightarrow> bool" where
  "digits_ok [] = False"
| "digits_ok [c] = isdigit c"
| "digits_ok (c # d # r) =
     (if isdigit c then
        (if d = CHR ''_'' then (case r of [] \<Rightarrow> False | e # _ \<Rightarrow> isdigit e \<and> digits_ok r)
         else digits_ok (d # r))
      else False)"

definition digits_val :: "string \<Rightarrow> nat" where
  "digits_val s = foldl (\<lambda>a c. 10 * a + digit_val c) 0 (filter isdigit s)"

definition signed_digits :: "string \<Rightarrow> py_error + int" where
  "signed_digits t =
     (case t of
        [] \<Rightarrow> Inl ValueError
      | c # r \<Rightarrow>
          if c = CHR ''-'' then (if digits_ok r then Inr (- int (digits_val r)) else Inl ValueError)
          else if c = CHR ''+'' then (if digits_ok r then Inr (int (digits_val r)) else Inl ValueError)
          else (if digits_ok t then Inr (int (digits_val t)) else Inl ValueError))"

definition py_int :: "string \<Rightarrow> py_error + int" where
  "py_int s = signed_digits (strip s)"

section \<open>Regular expressions\<close>

text \<open>
  The four patterns of the script use character classes, greedy repetition of a class,
  optional parts, sequencing and numbered groups. \<open>rmatch\<close> lists, in the order in which
  Python's backtracking matcher tries them, every way a pattern matches a prefix of the
  text: the text left over, with the groups captured so far. \<open>fullmatch\<close> takes the first
  way that leaves nothing over.
\<close>

datatype cclass = Space | Digit | Sign | Dot | Lit char

fun in_class :: "cclass \<Rightarrow> char \<Rightarrow> bool" where
  "in_class Space c = isspace c"
| "in_class Digit c = isdigit c"
| "in_class Sign c = (c = CHR ''+'' \<or> c = CHR ''-'')"
| "in_class Dot c = (c \<noteq> CHR 0x0A)"
| "in_class (Lit a) c = (c = a)"

datatype regex =
    Chr cclass
  | Star cclass
  | Plus cclass
  | Opt regex
  | Cat regex regex
  | Grp nat regex
  | Eps

type_synonym mstate = "string \<times> (nat \<times> string) list"

fun rmatch :: "regex \<Rightarrow> mstate \<Rightarrow> mstate list" where
  "rmatch (Chr k) (s, g) =
     (case s of [] \<Rightarrow> [] | c # t \<Rightarrow> if in_class k c then [(t, g)] else [])"
| "rmatch (Star k) (s, g) =
     map (\<lambda>i. (drop i s, g)) (rev [0 ..< Suc (length (takeWhile (in_class k) s))])"
| "rmatch (Plus k) (s, g) =
     map (\<lambda>i. (drop i s, g)) (rev [1 ..< Suc (length (takeWhile (in_class k) s))])"
| "rmatch (Opt r) x = rmatch r x @ [x]"
| "rmatch (Cat a b) x = concat (map (rmatch b) (rmatch a x))"
| "rmatch (Grp n r) (s, g) =
     map (\<lambda>(s', g'). (s', (n, take (length s - length s') s) # g')) (rmatch r (s, g))"
| "rmatch Eps x = [x]"

definition fullmatch :: "regex \<Rightarrow> string \<Rightarrow> (nat \<rightharpoonup> string) option" where
  "fullmatch r s =
     (case filter (\<lambda>(rest, g). rest = []) (rmatch r (s, [])) of
        [] \<Rightarrow> None
      | (rest, g) # _ \<Rightarrow> Some (map_of g))"

definition cats :: "regex list \<Rightarrow> regex" where
  "cats rs = foldr Cat rs Eps"

text \<open>
  The patterns, piece by piece as the source writes them. \<open>number_int\<close> is
  \<^verbatim>\<open>[+-]?\s*\d+\<close>, \<open>number_float\<close> is \<^verbatim>\<open>[+-]?\s*\d+(?:.\d*)?\<close>; the dot of the source is
  not escaped, so it stands for any character but a newline. The step in parentheses
  is \<^verbatim>\<open>[+-]\d+\<close>: its sign is not optional.
\<close>

definition number_int :: regex where
  "number_int = cats [Opt (Chr Sign), Star Space, Plus Digit]"

definition number_float :: regex where
  "number_float =
     cats [Opt (Chr Sign), Star Space, Plus Digit, Opt (cats [Chr Dot, Star Digit])]"

definition re_range :: regex where
  "re_range =
     cats [Star Space, Grp 1 number_int, Star Space, Chr (Lit CHR ''-''), Star Space,
           Grp 2 number_int,
           Opt (cats [Star Space, Chr (Lit CHR ''(''),
                      Grp 3 (cats [Chr Sign, Plus Digit]),
                      Star Space, Chr (Lit CHR '')'')]),
           Star Space]"

definition re_range_float :: regex where
  "re_range_float =
     cats [Star Space, Grp 1 number_float, Star Space, Chr (Lit CHR ''-''), Star Space,
           Grp 2 number_float,
           Opt (cats [Star Space, Chr (Lit CHR ''(''),
                      Grp 3 (cats [Chr Sign, Plus Digit, Opt (cats [Chr Dot, Star Digit])]),
                      Star Space, Chr (Lit CHR '')'')]),
           Star Space]"

definition re_range_count :: regex where
  "re_range_count =
     cats [Star Space, Grp 1 number_int, Star Space, Chr (Lit CHR ''-''), Star Space,
           Grp 2 number_int,
           Opt (cats [Star Space, Chr (Lit CHR ''[''),
                      Grp 3 (Plus Digit),
                      Star Space, Chr (Lit CHR '']'')]),
           Star Space]"

definition re_range_count_float :: regex where
  "re_range_count_float =
     cats [Star Space, Grp 1 number_float, Star Space, Chr (Lit CHR ''-''), Star Space,
           Grp 2 number_float,
           Opt (cats [Star Space, Chr (Lit CHR ''[''),
                      Grp 3 (cats [Plus Digit, Opt (cats [Chr Dot, Star Digit])]),
                      Star Space, Chr (Lit CHR '']'')]),
           Star Space]"

section \<open>Numeric helpers\<close>

subsection \<open>\<open>float(str)\<close>\<close>

text \<open>
  A Python float is modelled by the rational number it denotes: rounding to 53 bits and
  overflow are not modelled. \<open>float\<close> on a string accepts, after dropping surrounding
  whitespace, a sign, digits with an optional fraction and an optional exponent.
\<close>

definition nonfinite_spelling :: "string \<Rightarrow> bool" where
  "nonfinite_spelling t =
     (let u = lower (case t of [] \<Rightarrow> [] | c # r \<Rightarrow> if c = CHR ''+'' \<or> c = CHR ''-'' then r else t)
      in u = ''inf'' \<or> u = ''infinity'' \<or> u = ''nan'')"

definition mantissa :: "string \<Rightarrow> py_error + rat" where
  "mantissa m =
     (let ip = takeWhile (\<lambda>c. c \<noteq> CHR ''.'') m;
          rest = dropWhile (\<lambda>c. c \<noteq> CHR ''.'') m
      in case rest of
           [] \<Rightarrow> if digits_ok ip then Inr (of_nat (digits_val ip)) else Inl ValueError
         | _ # fp \<Rightarrow>
             if (ip = [] \<or> digits_ok ip) \<and> (fp = [] \<or> digits_ok fp) \<and> \<not> (ip = [] \<and> fp = [])
             then Inr (of_nat (digits_val ip)
                       + of_nat (digits_val fp) / of_nat (10 ^ length (filter isdigit fp)))
             else Inl ValueError)"

definition unsigned_float :: "string \<Rightarrow> py_error + rat" where
  "unsigned_float t =
     (let m = takeWhile (\<lambda>c. c \<noteq> CHR ''e'' \<and> c \<noteq> CHR ''E'') t;
          rest = dropWhile (\<lambda>c. c \<noteq> CHR ''e'' \<and> c \<noteq> CHR ''E'') t
      in case rest of
           [] \<Rightarrow> mantissa m
         | _ # ex \<Rightarrow>
             (case mantissa m of
                Inl e \<Rightarrow> Inl e
              | Inr q \<Rightarrow>
                  (case signed_digits ex of
                     Inl e \<Rightarrow> Inl e
                   | Inr k \<Rightarrow> Inr (if 0 \<le> k then q * of_nat (10 ^ nat k)
                                     else q / of_nat (10 ^ nat (- k))))))"

definition py_float :: "string \<Rightarrow> py_error + rat" where
  "py_float s =
     (let t = strip s
      in if nonfinite_spelling t then Inl NonFiniteFloat
         else case t of
                [] \<Rightarrow> Inl ValueError
              | c # r \<Rightarrow>
                  if c = CHR ''-'' then map_sum id uminus (unsigned_float r)
                  else if c = CHR ''+'' then unsigned_float r
                  else unsigned_float t)"

subsection \<open>\<open>range\<close>, \<open>numpy.arange\<close>, \<open>numpy.linspace\<close>\<close>

definition py_range :: "int \<Rightarrow> int \<Rightarrow> int \<Rightarrow> py_error + int list" where
  "py_range start stop step =
     (if step = 0 then Inl ValueError
      else if 0 < step
      then Inr (map (\<lambda>i. start + int i * step) [0 ..< nat ((stop - start + step - 1) div step)])
      else Inr (map (\<lambda>i. start + int i * step) [0 ..< nat ((start - stop - step - 1) div (- step))]))"

definition arange :: "rat \<Rightarrow> rat \<Rightarrow> rat \<Rightarrow> py_error + rat list" where
  "arange start stop step =
     (if step = 0 then Inl ZeroDivisionError
      else Inr (map (\<lambda>i. start + of_nat i * step) [0 ..< nat \<lceil>(stop - start) / step\<rceil>]))"

definition linspace :: "rat \<Rightarrow> rat \<Rightarrow> nat \<Rightarrow> rat list" where
  "linspace start stop num =
     (if num = 1 then [start]
      else map (\<lambda>i. start + of_nat i * ((stop - start) / of_nat (num - 1))) [0 ..< num])"

definition trunc :: "rat \<Rightarrow> int" where
  "trunc x = (if 0 \<le> x then \<lfloor>x\<rfloor> else \<lceil>x\<rceil>)"

section \<open>Splitting the axis text: \<open>csv.reader\<close>\<close>

text \<open>
  The reader of Python's \<open>csv\<close> module with the default dialect (comma, double quote,
  doubled quotes inside a quoted field, not strict), as the state machine it is. The text
  is read line by line (a line ends after \<open>\n\<close>); after each line the machine gets the
  end-of-line token. The script chains all records, so the fields are kept in one list.
\<close>

datatype csv_state =
  START_RECORD | START_FIELD | IN_FIELD | IN_QUOTED_FIELD | QUOTE_IN_QUOTED_FIELD | EAT_CRNL

datatype csv_tok = C char | EOL

record csv_parser =
  state :: csv_state
  cur_field :: string
  cur_fields :: "string list"

definition parse_save_field :: "csv_parser \<Rightarrow> csv_parser" where
  "parse_save_field ps = ps\<lparr>cur_fields := cur_fields ps @ [cur_field ps], cur_field := []\<rparr>"

definition parse_add_char :: "char \<Rightarrow> csv_parser \<Rightarrow> csv_parser" where
  "parse_add_char c ps = ps\<lparr>cur_field := cur_field ps @ [c]\<rparr>"

definition is_nl :: "csv_tok \<Rightarrow> bool" where
  "is_nl t = (t = C (CHR 0x0A) \<or> t = C (CHR 0x0D))"

definition start_field :: "csv_tok \<Rightarrow> csv_parser \<Rightarrow> csv_parser" where
  "start_field t ps =
     (if is_nl t \<or> t = EOL
      then (parse_save_field ps)\<lparr>state := (if t = EOL then START_RECORD else EAT_CRNL)\<rparr>
      else if t = C (CHR 0x22) then ps\<lparr>state := IN_QUOTED_FIELD\<rparr>
      else if t = C (CHR '','') then parse_save_field ps
      else (case t of C c \<Rightarrow> (parse_add_char c ps)\<lparr>state := IN_FIELD\<rparr> | EOL \<Rightarrow> ps))"

definition parse_process_char :: "csv_tok \<Rightarrow> csv_parser \<Rightarrow> py_error + csv_parser" where
  "parse_process_char t ps =
     (case state ps of
        START_RECORD \<Rightarrow>
          if t = EOL then Inr ps
          else if is_nl t then Inr (ps\<lparr>state := EAT_CRNL\<rparr>)
          else Inr (start_field t (ps\<lparr>state := START_FIELD\<rparr>))
      | START_FIELD \<Rightarrow> Inr (start_field t ps)
      | IN_FIELD \<Rightarrow>
          if is_nl t \<or> t = EOL
          then Inr ((parse_save_field ps)\<lparr>state := (if t = EOL then START_RECORD else EAT_CRNL)\<rparr>)
          else if t = C (CHR '','') then Inr ((parse_save_field ps)\<lparr>state := START_FIELD\<rparr>)
          else (case t of C c \<Rightarrow> Inr (parse_add_char c ps) | EOL \<Rightarrow> Inr ps)
      | IN_QUOTED_FIELD \<Rightarrow>
          if t = EOL then Inr ps
          else if t = C (CHR 0x22) then Inr (ps\<lparr>state := QUOTE_IN_QUOTED_FIELD\<rparr>)
          else (case t of C c \<Rightarrow> Inr (parse_add_char c ps) | EOL \<Rightarrow> Inr ps)
      | QUOTE_IN_QUOTED_FIELD \<Rightarrow>
          if t = C (CHR 0x22) then Inr ((parse_add_char (CHR 0x22) ps)\<lparr>state := IN_QUOTED_FIELD\<rparr>)
          else if t = C (CHR '','') then Inr ((parse_save_field ps)\<lparr>state := START_FIELD\<rparr>)
          else if is_nl t \<or> t = EOL
          then Inr ((parse_save_field ps)\<lparr>state := (if t = EOL then START_RECORD else EAT_CRNL)\<rparr>)
          else (case t of C c \<Rightarrow> Inr ((parse_add_char c ps)\<lparr>state := IN_FIELD\<rparr>) | EOL \<Rightarrow> Inr ps)
      | EAT_CRNL \<Rightarrow>
          if is_nl t then Inr ps
          else if t = EOL then Inr (ps\<lparr>state := START_RECORD\<rparr>)
          else Inl CsvError)"

fun csv_tokens :: "string \<Rightarrow> csv_tok list" where
  "csv_tokens [] = []"
| "csv_tokens [c] = [C c, EOL]"
| "csv_tokens (c # d # r) =
     (if c = CHR 0x0A then C c # EOL # csv_tokens (d # r) else C c # csv_tokens (d # r))"

fun csv_run :: "csv_tok list \<Rightarrow> csv_parser \<Rightarrow> py_error + csv_parser" where
  "csv_run [] ps = Inr ps"
| "csv_run (t # ts) ps =
     (case parse_process_char t ps of Inl e \<Rightarrow> Inl e | Inr ps' \<Rightarrow> csv_run ts ps')"

definition csv_reader :: "string \<Rightarrow> py_error + string list" where
  "csv_reader vals =
     (case csv_run (csv_tokens vals) \<lparr>state = START_RECORD, cur_field = [], cur_fields = []\<rparr> of
        Inl e \<Rightarrow> Inl e
      | Inr ps \<Rightarrow>
          Inr (cur_fields (if state ps = IN_QUOTED_FIELD then parse_save_field ps else ps)))"

section \<open>Permutations\<close>

text \<open>\<open>itertools.permutations\<close>: every ordering, by position, in lexicographic order.\<close>

fun select :: "'a list \<Rightarrow> ('a \<times> 'a list) list" where
  "select [] = []"
| "select (x # xs) = (x, xs) # map (\<lambda>(y, ys). (y, x # ys)) (select xs)"

fun permutations_n :: "nat \<Rightarrow> 'a list \<Rightarrow> 'a list list" where
  "permutations_n 0 xs = [[]]"
| "permutations_n (Suc n) xs =
     concat (map (\<lambda>(y, ys). map ((#) y) (permutations_n n ys)) (select xs))"

definition permutations :: "'a list \<Rightarrow> 'a list list" where
  "permutations xs = permutations_n (length xs) xs"

section \<open>Strings\<close>

text \<open>
  \<open>contains sub s\<close> is Python's \<open>sub in s\<close>, \<open>py_find s sub\<close> is \<open>s.find(sub)\<close>,
  \<open>replace s old new\<close> is \<open>s.replace(old, new)\<close>, \<open>slice_to s n\<close> is \<open>s[0:n]\<close> and
  \<open>slice_from s n\<close> is \<open>s[n:]\<close> (for \<open>n \<ge> -1\<close>, the only indices the script makes).
\<close>

fun contains :: "string \<Rightarrow> string \<Rightarrow> bool" where
  "contains sub [] = (sub = [])"
| "contains sub (c # s) = (prefix sub (c # s) \<or> contains sub s)"

fun find_from :: "int \<Rightarrow> string \<Rightarrow> string \<Rightarrow> int" where
  "find_from i sub [] = (if sub = [] then i else - 1)"
| "find_from i sub (c # s) = (if prefix sub (c # s) then i else find_from (i + 1) sub s)"

definition py_find :: "string \<Rightarrow> string \<Rightarrow> int" where
  "py_find s sub = find_from 0 sub s"

fun replace_from :: "nat \<Rightarrow> string \<Rightarrow> string \<Rightarrow> string \<Rightarrow> string" where
  "replace_from k old new [] = []"
| "replace_from k old new (c # s) =
     (if 0 < k then replace_from (k - 1) old new s
      else if prefix old (c # s) then new @ replace_from (length old - 1) old new s
      else c # replace_from 0 old new s)"

definition replace :: "string \<Rightarrow> string \<Rightarrow> string \<Rightarrow> string" where
  "replace s old new =
     (if old = [] then new @ concat (map (\<lambda>c. c # new) s) else replace_from 0 old new s)"

definition slice_to :: "string \<Rightarrow> int \<Rightarrow> string" where
  "slice_to s n = (if 0 \<le> n then take (nat n) s else take (length s - nat (- n)) s)"

definition slice_from :: "string \<Rightarrow> int \<Rightarrow> string" where
  "slice_from s n = (if 0 \<le> n then drop (nat n) s else drop (length s - nat (- n)) s)"

fun join :: "string \<Rightarrow> string list \<Rightarrow> string" where
  "join sep [] = []"
| "join sep [x] = x"
| "join sep (x # y # r) = x @ sep @ join sep (y # r)"

section \<open>Images, results, the request and the host\<close>

text \<open>
  Images are the terms the host's imaging calls build: an image that a render returned,
  \<open>Image.new(mode, size)\<close>, \<open>images.image_grid(imgs, rows)\<close> and
  \<open>images.draw_grid_annotations(im, w, h, hor_texts, ver_texts)\<close>. For the page legend the
  script passes the size of the grid itself (\<open>w, h = grid.size\<close>); that is the size
  \<open>None\<close>. A legend text is what a formatter returned: \<open>Labelled l x\<close> is the text
  \<open>l: x\<close>, \<open>Plain x\<close> the value itself (a float rounded to 8 places by the formatter in
  both), \<open>Text s\<close> a string; \<open>Unlabelled\<close> is \<open>GridAnnotation()\<close>.
\<close>

datatype legend = Labelled string pyvalue | Plain pyvalue | Text string | Unlabelled

datatype image =
    Rendered string "nat \<times> nat" nat
  | Image_new string "nat \<times> nat"
  | image_grid "image list" nat
  | draw_grid_annotations image "(nat \<times> nat) option" "legend list" "legend list"

text \<open>
  A render returns images of the first two kinds, and \<open>mode\<close> and \<open>img_size\<close> are read on
  those only; on the other two they give the values of \<open>Image.new\<close>'s defaults in the
  script and are never used.
\<close>

fun mode :: "image \<Rightarrow> string" where
  "mode (Rendered m sz k) = m"
| "mode (Image_new m sz) = m"
| "mode (image_grid ims rows) = ''P''"
| "mode (draw_grid_annotations im sz hs vs) = ''P''"

fun img_size :: "image \<Rightarrow> nat \<times> nat" where
  "img_size (Rendered m sz k) = sz"
| "img_size (Image_new m sz) = sz"
| "img_size (image_grid ims rows) = (1, 1)"
| "img_size (draw_grid_annotations im sz hs vs) = (1, 1)"

record Processed =
  images :: "image list"
  all_prompts :: "string list"
  all_seeds :: "pyvalue list"
  infotexts :: "string list"
  res_prompt :: string
  res_seed :: pyvalue

definition Processed_default :: Processed where
  "Processed_default =
     \<lparr>images = [], all_prompts = [], all_seeds = [], infotexts = [],
      res_prompt = [], res_seed = VInt (- 1)\<rparr>"

record request =
  prompt :: string
  negative_prompt :: string
  attrs :: "string \<rightharpoonup> pyvalue"
  sampler_name :: string
  p_sd_model :: string
  batch_size :: int
  n_iter :: int
  enable_hr :: bool
  is_txt2img :: bool

text \<open>
  \<open>attrs\<close> holds the attributes the script sets with \<open>setattr\<close> (\<open>seed\<close>, \<open>subseed\<close>,
  \<open>steps\<close>, \<open>cfg_scale\<close>, ...).

  The host: its lookup tables, the shared render configuration (the checkpoint held by
  \<open>shared.sd_model\<close>, the hypernetwork, \<open>CLIP_stop_at_last_layers\<close>), two options, the
  interrupt flag and progress fields of \<open>shared.state\<close>, the state of the \<open>random\<close>
  module, and two logs: the requests passed to \<open>process_images\<close> and the grids passed to
  \<open>images.save_image\<close>. The hypernetwork that is loaded and the option
  \<open>opts.sd_hypernetwork\<close> are one field, and the model object is the checkpoint it holds.
\<close>

record host =
  samplers_map :: "string \<rightharpoonup> string"
  get_closet_checkpoint_match :: "string \<Rightarrow> string option"
  find_closest_hypernetwork_name :: "string \<Rightarrow> string option"
  sd_model :: string
  sd_hypernetwork :: "string option"
  hypernetwork_strength :: "pyvalue option"
  CLIP_stop_at_last_layers :: pyvalue
  return_grid :: bool
  grid_save :: bool
  interrupted :: bool
  job_count :: int
  job :: "int \<times> int"
  total_tqdm :: int
  random_draws :: "nat \<Rightarrow> int"
  random_pos :: nat
  render_log :: "request list"
  saved_grids :: "image list"

text \<open>
  \<open>random.randrange(n)\<close> for a positive \<open>n\<close>: the next draw of the generator, brought
  into \<open>[0, n)\<close>.
\<close>

definition randrange :: "int \<Rightarrow> host \<Rightarrow> int \<times> host" where
  "randrange n h =
     (random_draws h (random_pos h) mod n, h\<lparr>random_pos := Suc (random_pos h)\<rparr>)"

definition reload_model_weights :: "string \<Rightarrow> host \<Rightarrow> host" where
  "reload_model_weights info h = h\<lparr>sd_model := info\<rparr>"

definition load_hypernetwork :: "string option \<Rightarrow> host \<Rightarrow> host" where
  "load_hypernetwork name h = h\<lparr>sd_hypernetwork := name\<rparr>"

definition apply_strength :: "pyvalue option \<Rightarrow> host \<Rightarrow> host" where
  "apply_strength x h = h\<lparr>hypernetwork_strength := x\<rparr>"

section \<open>Axis options\<close>

type_synonym apply_fn =
  "request \<Rightarrow> pyvalue \<Rightarrow> pyvalue list \<Rightarrow> host \<Rightarrow> (py_error + request) \<times> host"

type_synonym confirm_fn = "request \<Rightarrow> pyvalue list \<Rightarrow> host \<Rightarrow> py_error + unit"

type_synonym format_fn = "request \<Rightarrow> string \<Rightarrow> pyvalue \<Rightarrow> legend"

definition apply_field :: "string \<Rightarrow> apply_fn" where
  "apply_field fld p x xs h = (Inr (p\<lparr>attrs := (attrs p)(fld \<mapsto> x)\<rparr>), h)"

definition apply_prompt :: apply_fn where
  "apply_prompt p x xs h =
     (case xs of
        [] \<Rightarrow> (Inl IndexError, h)
      | x0 # _ \<Rightarrow>
          (case (x0, x) of
             (VStr t, VStr new) \<Rightarrow>
               if \<not> contains t (prompt p) \<and> \<not> contains t (negative_prompt p)
               then (Inl (RuntimeError (''Prompt S/R did not find '' @ t
                                        @ '' in prompt or negative prompt.'')), h)
               else (Inr (p\<lparr>prompt := replace (prompt p) t new,
                             negative_prompt := replace (negative_prompt p) t new\<rparr>), h)
           | _ \<Rightarrow> (Inl TypeError, h)))"

fun split_prompt :: "string list \<Rightarrow> string \<Rightarrow> string list \<times> string" where
  "split_prompt [] pr = ([], pr)"
| "split_prompt (token # ts) pr =
     (let n = py_find pr token;
          (parts, pr') = split_prompt ts (slice_from pr (n + int (length token)))
      in (slice_to pr n # parts, pr'))"

definition apply_order :: apply_fn where
  "apply_order p x xs h =
     (case x of
        VTuple toks \<Rightarrow>
          (let token_order = sort_key fst (map (\<lambda>token. (py_find (prompt p) token, token)) toks);
               (prompt_parts, pr) = split_prompt (map snd token_order) (prompt p);
               prompt_tmp = concat (map (\<lambda>(part, tok). part @ tok) (zip prompt_parts toks))
           in (Inr (p\<lparr>prompt := prompt_tmp @ pr\<rparr>), h))
      | _ \<Rightarrow> (Inl TypeError, h))"

definition apply_sampler :: apply_fn where
  "apply_sampler p x xs h =
     (case x of
        VStr s \<Rightarrow>
          (case samplers_map h (lower s) of
             None \<Rightarrow> (Inl (RuntimeError (''Unknown sampler: '' @ s)), h)
           | Some name \<Rightarrow> (Inr (p\<lparr>sampler_name := name\<rparr>), h))
      | _ \<Rightarrow> (Inl AttributeError, h))"

fun confirm_samplers :: confirm_fn where
  "confirm_samplers p [] h = Inr ()"
| "confirm_samplers p (x # xs) h =
     (case x of
        VStr s \<Rightarrow>
          if samplers_map h (lower s) = None then Inl (RuntimeError (''Unknown sampler: '' @ s))
          else confirm_samplers p xs h
      | _ \<Rightarrow> Inl AttributeError)"

definition apply_checkpoint :: apply_fn where
  "apply_checkpoint p x xs h =
     (case x of
        VStr s \<Rightarrow>
          (case get_closet_checkpoint_match h s of
             None \<Rightarrow> (Inl (RuntimeError (''Unknown checkpoint: '' @ s)), h)
           | Some info \<Rightarrow>
               (let h' = reload_model_weights info h
                in (Inr (p\<lparr>p_sd_model := sd_model h'\<rparr>), h')))
      | _ \<Rightarrow> (Inl TypeError, h))"

fun confirm_checkpoints :: confirm_fn where
  "confirm_checkpoints p [] h = Inr ()"
| "confirm_checkpoints p (x # xs) h =
     (case x of
        VStr s \<Rightarrow>
          if get_closet_checkpoint_match h s = None
          then Inl (RuntimeError (''Unknown checkpoint: '' @ s))
          else confirm_checkpoints p xs h
      | _ \<Rightarrow> Inl TypeError)"

definition falsy_name :: "string option \<Rightarrow> bool" where
  "falsy_name name = (name = None \<or> name = Some [])"

definition apply_hypernetwork :: apply_fn where
  "apply_hypernetwork p x xs h =
     (case x of
        VStr s \<Rightarrow>
          if lower s = [] \<or> lower s = ''none'' then (Inr p, load_hypernetwork None h)
          else (let name = find_closest_hypernetwork_name h s
                in if falsy_name name
                   then (Inl (RuntimeError (''Unknown hypernetwork: '' @ s)), h)
                   else (Inr p, load_hypernetwork name h))
      | _ \<Rightarrow> (Inl AttributeError, h))"

definition apply_hypernetwork_strength :: apply_fn where
  "apply_hypernetwork_strength p x xs h = (Inr p, apply_strength (Some x) h)"

fun confirm_hypernetworks :: confirm_fn where
  "confirm_hypernetworks p [] h = Inr ()"
| "confirm_hypernetworks p (x # xs) h =
     (case x of
        VStr s \<Rightarrow>
          if lower s = [] \<or> lower s = ''none'' then confirm_hypernetworks p xs h
          else if falsy_name (find_closest_hypernetwork_name h s)
          then Inl (RuntimeError (''Unknown hypernetwork: '' @ s))
          else confirm_hypernetworks p xs h
      | _ \<Rightarrow> Inl AttributeError)"

definition apply_clip_skip :: apply_fn where
  "apply_clip_skip p x xs h = (Inr p, h\<lparr>CLIP_stop_at_last_layers := x\<rparr>)"

definition format_value_add_label :: format_fn where
  "format_value_add_label p lbl x = Labelled lbl x"

definition format_value :: format_fn where
  "format_value p lbl x = Plain x"

definition format_value_join_list :: format_fn where
  "format_value_join_list p lbl x =
     (case x of VTuple toks \<Rightarrow> Text (join '', '' toks) | _ \<Rightarrow> Plain x)"

definition do_nothing :: apply_fn where
  "do_nothing p x xs h = (Inr p, h)"

definition format_nothing :: format_fn where
  "format_nothing p lbl x = Text []"

text \<open>
  \<open>axis_type\<close> is the callable in the option's \<open>type\<close> slot. The formatters read only the
  label of the option they are given, so they take the label.
\<close>

datatype axis_type = int_type | float_type | str_type | str_permutations

datatype AxisOption =
  AxisOption (opt_label: string) (opt_type: axis_type) (opt_apply: apply_fn)
             (opt_format_value: format_fn) (opt_confirm: "confirm_fn option")

definition axis_options :: "AxisOption list" where
  "axis_options =
    [AxisOption ''Nothing'' str_type do_nothing format_nothing None,
     AxisOption ''Seed'' int_type (apply_field ''seed'') format_value_add_label None,
     AxisOption ''Var. seed'' int_type (apply_field ''subseed'') format_value_add_label None,
     AxisOption ''Var. strength'' float_type (apply_field ''subseed_strength'')
       format_value_add_label None,
     AxisOption ''Steps'' int_type (apply_field ''steps'') format_value_add_label None,
     AxisOption ''CFG Scale'' float_type (apply_field ''cfg_scale'') format_value_add_label None,
     AxisOption ''Prompt S/R'' str_type apply_prompt format_value None,
     AxisOption ''Prompt order'' str_permutations apply_order format_value_join_list None,
     AxisOption ''Sampler'' str_type apply_sampler format_value (Some confirm_samplers),
     AxisOption ''Checkpoint name'' str_type apply_checkpoint format_value
       (Some confirm_checkpoints),
     AxisOption ''Hypernetwork'' str_type apply_hypernetwork format_value
       (Some confirm_hypernetworks),
     AxisOption ''Hypernet str.'' float_type apply_hypernetwork_strength
       format_value_add_label None,
     AxisOption ''Sigma Churn'' float_type (apply_field ''s_churn'') format_value_add_label None,
     AxisOption ''Sigma min'' float_type (apply_field ''s_tmin'') format_value_add_label None,
     AxisOption ''Sigma max'' float_type (apply_field ''s_tmax'') format_value_add_label None,
     AxisOption ''Sigma noise'' float_type (apply_field ''s_noise'') format_value_add_label None,
     AxisOption ''Eta'' float_type (apply_field ''eta'') format_value_add_label None,
     AxisOption ''Clip skip'' int_type apply_clip_skip format_value_add_label None,
     AxisOption ''Denoising'' float_type (apply_field ''denoising_strength'')
       format_value_add_label None,
     AxisOption ''Cond. Image Mask Weight'' float_type (apply_field ''inpainting_mask_weight'')
       format_value_add_label None]"

section \<open>Expanding an axis: \<open>process_axis\<close>\<close>

definition bind_err :: "py_error + 'a \<Rightarrow> ('a \<Rightarrow> py_error + 'b) \<Rightarrow> py_error + 'b" where
  "bind_err x f = (case x of Inl e \<Rightarrow> Inl e | Inr v \<Rightarrow> f v)"

fun map_err :: "('a \<Rightarrow> py_error + 'b) \<Rightarrow> 'a list \<Rightarrow> py_error + 'b list" where
  "map_err f [] = Inr []"
| "map_err f (x # xs) = bind_err (f x) (\<lambda>y. bind_err (map_err f xs) (\<lambda>ys. Inr (y # ys)))"

text \<open>\<open>int(x)\<close> and \<open>float(x)\<close> on a value; \<open>int_group\<close> is \<open>int(m.group(k))\<close>.\<close>

fun int_of_value :: "pyvalue \<Rightarrow> py_error + pyvalue" where
  "int_of_value (VInt n) = Inr (VInt n)"
| "int_of_value (VFloat q) = Inr (VInt (trunc q))"
| "int_of_value (VStr s) = bind_err (py_int s) (\<lambda>n. Inr (VInt n))"
| "int_of_value VNone = Inl TypeError"
| "int_of_value (VTuple t) = Inl TypeError"

fun float_of_value :: "pyvalue \<Rightarrow> py_error + pyvalue" where
  "float_of_value (VInt n) = Inr (VFloat (of_int n))"
| "float_of_value (VFloat q) = Inr (VFloat q)"
| "float_of_value (VStr s) = bind_err (py_float s) (\<lambda>q. Inr (VFloat q))"
| "float_of_value VNone = Inl TypeError"
| "float_of_value (VTuple t) = Inl TypeError"

definition int_group :: "string option \<Rightarrow> py_error + int" where
  "int_group grp = (case grp of None \<Rightarrow> Inl TypeError | Some s \<Rightarrow> py_int s)"

definition float_group :: "string option \<Rightarrow> py_error + rat" where
  "float_group grp = (case grp of None \<Rightarrow> Inl TypeError | Some s \<Rightarrow> py_float s)"

text \<open>
  The body of the loop over the fields of an \<open>int\<close> axis: what one field adds to
  \<open>valslist_ext\<close>. Both patterns are tried; the step pattern is looked at first.
\<close>

definition expand_int :: "string \<Rightarrow> py_error + pyvalue list" where
  "expand_int val =
     (let m = fullmatch re_range val;
          mc = fullmatch re_range_count val
      in case m of
           Some g \<Rightarrow>
             bind_err (int_group (g 1)) (\<lambda>start.
             bind_err (int_group (g 2)) (\<lambda>e.
             bind_err (case g 3 of None \<Rightarrow> Inr 1 | Some s \<Rightarrow> py_int s) (\<lambda>step.
             bind_err (py_range start (e + 1) step) (\<lambda>r. Inr (map VInt r)))))
         | None \<Rightarrow>
             (case mc of
                Some g \<Rightarrow>
                  bind_err (int_group (g 1)) (\<lambda>start.
                  bind_err (int_group (g 2)) (\<lambda>e.
                  bind_err (case g 3 of None \<Rightarrow> Inr 1 | Some s \<Rightarrow> py_int s) (\<lambda>num.
                  if num < 0 then Inl ValueError
                  else Inr (map (\<lambda>x. VInt (trunc x))
                              (linspace (of_int start) (of_int e) (nat num))))))
              | None \<Rightarrow> Inr [VStr val]))"

definition expand_float :: "string \<Rightarrow> py_error + pyvalue list" where
  "expand_float val =
     (let m = fullmatch re_range_float val;
          mc = fullmatch re_range_count_float val
      in case m of
           Some g \<Rightarrow>
             bind_err (float_group (g 1)) (\<lambda>start.
             bind_err (float_group (g 2)) (\<lambda>e.
             bind_err (case g 3 of None \<Rightarrow> Inr 1 | Some s \<Rightarrow> py_float s) (\<lambda>step.
             bind_err (arange start (e + step) step) (\<lambda>r. Inr (map VFloat r)))))
         | None \<Rightarrow>
             (case mc of
                Some g \<Rightarrow>
                  bind_err (float_group (g 1)) (\<lambda>start.
                  bind_err (float_group (g 2)) (\<lambda>e.
                  bind_err (case g 3 of None \<Rightarrow> Inr 1 | Some s \<Rightarrow> py_int s) (\<lambda>num.
                  if num < 0 then Inl ValueError
                  else Inr (map VFloat (linspace start e (nat num))))))
              | None \<Rightarrow> Inr [VStr val]))"

fun expand_fields :: "(string \<Rightarrow> py_error + pyvalue list) \<Rightarrow> string list
    \<Rightarrow> py_error + pyvalue list" where
  "expand_fields f [] = Inr []"
| "expand_fields f (val # vals) =
     bind_err (f val) (\<lambda>xs. bind_err (expand_fields f vals) (\<lambda>ys. Inr (xs @ ys)))"

definition typed_values :: "axis_type \<Rightarrow> string list \<Rightarrow> py_error + pyvalue list" where
  "typed_values ty valslist =
     (case ty of
        int_type \<Rightarrow> bind_err (expand_fields expand_int valslist) (map_err int_of_value)
      | float_type \<Rightarrow> bind_err (expand_fields expand_float valslist) (map_err float_of_value)
      | str_permutations \<Rightarrow> Inr (map VTuple (permutations valslist))
      | str_type \<Rightarrow> Inr (map VStr valslist))"

definition process_axis :: "request \<Rightarrow> host \<Rightarrow> AxisOption \<Rightarrow> string \<Rightarrow> py_error + pyvalue list"
  where
  "process_axis p h opt vals =
     (if opt_label opt = ''Nothing'' then Inr [VInt 0]
      else
        bind_err (csv_reader vals) (\<lambda>rows.
        bind_err (typed_values (opt_type opt) (map strip rows)) (\<lambda>valslist.
        case opt_confirm opt of
          None \<Rightarrow> Inr valslist
        | Some confirm \<Rightarrow> bind_err (confirm p valslist h) (\<lambda>u. Inr valslist))))"

section \<open>Seeds\<close>

text \<open>
  \<open>unfixed v\<close> is the test \<open>val is None or val == '' or val == -1\<close>; a float equal to -1
  passes the last comparison too.
\<close>

definition unfixed :: "pyvalue \<Rightarrow> bool" where
  "unfixed v = (v = VNone \<or> v = VStr [] \<or> v = VInt (- 1) \<or> v = VFloat (- 1))"

fun fix_values :: "pyvalue list \<Rightarrow> host \<Rightarrow> pyvalue list \<times> host" where
  "fix_values [] h = ([], h)"
| "fix_values (val # vals) h =
     (if unfixed val
      then (let (n, h1) = randrange 4294967294 h;
                (rest, h2) = fix_values vals h1
            in (VInt n # rest, h2))
      else (let (rest, h2) = fix_values vals h in (val # rest, h2)))"

definition fix_axis_seeds :: "AxisOption \<Rightarrow> pyvalue list \<Rightarrow> host \<Rightarrow> pyvalue list \<times> host"
  where
  "fix_axis_seeds axis_opt axis_list h =
     (if opt_label axis_opt = ''Seed'' \<or> opt_label axis_opt = ''Var. seed''
      then fix_values axis_list h
      else (axis_list, h))"

section \<open>Drawing the pages: \<open>draw_crp_pages\<close>\<close>

type_synonym cell_fn =
  "pyvalue \<Rightarrow> pyvalue \<Rightarrow> pyvalue \<Rightarrow> host \<Rightarrow> (py_error + Processed) \<times> host"

record draw_args =
  row_field_values :: "pyvalue list"
  col_field_values :: "pyvalue list"
  page_field_values :: "pyvalue list"
  col_labels :: "legend list"
  row_labels :: "legend list"
  page_labels :: "legend list"
  cell :: cell_fn
  draw_legend :: bool
  include_lone_images :: bool

record draw_state =
  cache_images :: "image list"
  processed_result :: "Processed option"
  cell_mode :: string
  cell_size :: "nat \<times> nat"

definition clear_lists :: "Processed \<Rightarrow> Processed" where
  "clear_lists pr = pr\<lparr>images := [], all_prompts := [], all_seeds := [], infotexts := []\<rparr>"

definition insert_at :: "nat \<Rightarrow> 'a \<Rightarrow> 'a list \<Rightarrow> 'a list" where
  "insert_at i x xs = take i xs @ [x] @ drop i xs"

text \<open>
  The \<open>try\<close> block of one cell and the append that follows it. \<open>processed.images[0]\<close>
  raises when there is no image, and the handler makes a blank image of the current mode
  and size. \<open>copy(processed)\<close> is a shallow copy: the four lists of the first valid result
  are the lists of its copy, so clearing the copy's lists clears those of \<open>processed\<close> too,
  and \<open>processed.infotexts[0]\<close> then raises inside the same \<open>try\<close>.
\<close>

definition store_cell :: "bool \<Rightarrow> Processed \<Rightarrow> draw_state \<Rightarrow> draw_state" where
  "store_cell lone processed st =
     (case images processed of
        [] \<Rightarrow> st\<lparr>cache_images := cache_images st @ [Image_new (cell_mode st) (cell_size st)]\<rparr>
      | processed_image # _ \<Rightarrow>
          (let first = (processed_result st = None);
               res = (case processed_result st of None \<Rightarrow> clear_lists processed | Some r \<Rightarrow> r);
               infos = (if first then [] else infotexts processed);
               st1 = (if first
                      then st\<lparr>cell_mode := mode processed_image,
                              cell_size := img_size processed_image\<rparr>
                      else st)
           in if lone
              then (let res1 = res\<lparr>images := images res @ [processed_image],
                                     all_prompts := all_prompts res @ [res_prompt processed],
                                     all_seeds := all_seeds res @ [res_seed processed]\<rparr>
                    in case infos of
                         [] \<Rightarrow>
                           st1\<lparr>processed_result := Some res1,
                               cache_images := cache_images st1
                                 @ [Image_new (cell_mode st1) (cell_size st1)]\<rparr>
                       | t # _ \<Rightarrow>
                           st1\<lparr>processed_result := Some (res1\<lparr>infotexts := infotexts res1 @ [t]\<rparr>),
                               cache_images := cache_images st1 @ [processed_image]\<rparr>)
              else st1\<lparr>processed_result := Some res,
                       cache_images := cache_images st1 @ [processed_image]\<rparr>))"

definition total_cells :: "draw_args \<Rightarrow> nat" where
  "total_cells a =
     length (col_field_values a) * length (row_field_values a) * length (page_field_values a)"

text \<open>One cell: the progress text, the call of \<open>cell\<close> (outside the \<open>try\<close>), the store.\<close>

definition render_cell :: "draw_args \<Rightarrow> nat \<Rightarrow> pyvalue \<Rightarrow> nat \<Rightarrow> pyvalue \<Rightarrow> nat \<Rightarrow> pyvalue
    \<Rightarrow> draw_state \<Rightarrow> host \<Rightarrow> (py_error + draw_state) \<times> host" where
  "render_cell a ipg pg ir r ic c st h =
     (let h1 = h\<lparr>job := (int (ic + (ir * ipg) * length (col_field_values a) + 1),
                         int (total_cells a))\<rparr>
      in case cell a c r pg h1 of
           (Inl e, h2) \<Rightarrow> (Inl e, h2)
         | (Inr processed, h2) \<Rightarrow> (Inr (store_cell (include_lone_images a) processed st), h2))"

fun col_loop :: "draw_args \<Rightarrow> nat \<Rightarrow> pyvalue \<Rightarrow> nat \<Rightarrow> pyvalue \<Rightarrow> (nat \<times> pyvalue) list
    \<Rightarrow> draw_state \<Rightarrow> host \<Rightarrow> (py_error + draw_state) \<times> host" where
  "col_loop a ipg pg ir r [] st h = (Inr st, h)"
| "col_loop a ipg pg ir r ((ic, c) # cs) st h =
     (case render_cell a ipg pg ir r ic c st h of
        (Inl e, h') \<Rightarrow> (Inl e, h')
      | (Inr st', h') \<Rightarrow>
          if interrupted h' then (Inr st', h') else col_loop a ipg pg ir r cs st' h')"

definition fill_page :: "draw_args \<Rightarrow> draw_state \<Rightarrow> draw_state" where
  "fill_page a st =
     st\<lparr>cache_images := cache_images st
          @ replicate (length (col_field_values a) * length (row_field_values a)
                       - length (cache_images st))
              (Image_new (cell_mode st) (cell_size st))\<rparr>"

fun row_loop :: "draw_args \<Rightarrow> nat \<Rightarrow> pyvalue \<Rightarrow> (nat \<times> pyvalue) list
    \<Rightarrow> draw_state \<Rightarrow> host \<Rightarrow> (py_error + draw_state) \<times> host" where
  "row_loop a ipg pg [] st h = (Inr st, h)"
| "row_loop a ipg pg ((ir, r) # rs) st h =
     (case col_loop a ipg pg ir r (enumerate 0 (col_field_values a)) st h of
        (Inl e, h') \<Rightarrow> (Inl e, h')
      | (Inr st', h') \<Rightarrow>
          if interrupted h' then (Inr (fill_page a st'), h') else row_loop a ipg pg rs st' h')"

text \<open>
  After the rows of a page: the grid, the legends, and the insertion of the grid into
  \<open>processed_result\<close>, which is \<open>None\<close> until a cell has given an image.
\<close>

definition compose_page :: "draw_args \<Rightarrow> nat \<Rightarrow> draw_state \<Rightarrow> py_error + draw_state" where
  "compose_page a ipg st =
     (let grid0 = image_grid (cache_images st) (length (row_field_values a));
          grid1 = (if draw_legend a
                   then draw_grid_annotations grid0 (Some (cell_size st)) (col_labels a) (row_labels a)
                   else grid0)
      in bind_err
           (if draw_legend a \<and> 1 < length (page_field_values a)
            then (case drop ipg (page_labels a) of
                    [] \<Rightarrow> Inl IndexError
                  | l # _ \<Rightarrow> Inr (draw_grid_annotations grid1 None [l] [Unlabelled]))
            else Inr grid1)
           (\<lambda>grid.
              case processed_result st of
                None \<Rightarrow> Inl AttributeError
              | Some res \<Rightarrow>
                  Inr (st\<lparr>cache_images := [],
                          processed_result :=
                            Some (res\<lparr>images := insert_at ipg grid (images res),
                                       all_prompts := insert_at ipg [] (all_prompts res),
                                       all_seeds := insert_at ipg (VInt (- 1)) (all_seeds res),
                                       infotexts := insert_at ipg [] (infotexts res)\<rparr>)\<rparr>)))"

fun page_loop :: "draw_args \<Rightarrow> nat option \<Rightarrow> (nat \<times> pyvalue) list
    \<Rightarrow> draw_state \<Rightarrow> host \<Rightarrow> (py_error + draw_state \<times> nat option) \<times> host" where
  "page_loop a prev [] st h = (Inr (st, prev), h)"
| "page_loop a prev ((ipg, pg) # pgs) st h =
     (case row_loop a ipg pg (enumerate 0 (row_field_values a)) st h of
        (Inl e, h') \<Rightarrow> (Inl e, h')
      | (Inr st', h') \<Rightarrow>
          (case compose_page a ipg st' of
             Inl e \<Rightarrow> (Inl e, h')
           | Inr st'' \<Rightarrow>
               if interrupted h' then (Inr (st'', Some ipg), h')
               else page_loop a (Some ipg) pgs st'' h'))"

definition draw_crp_pages :: "request \<Rightarrow> draw_args \<Rightarrow> host
    \<Rightarrow> (py_error + Processed \<times> nat) \<times> host" where
  "draw_crp_pages p a h =
     (let h0 = h\<lparr>job_count := int (total_cells a) * n_iter p\<rparr>;
          st0 = \<lparr>cache_images = [], processed_result = None,
                 cell_mode = ''P'', cell_size = (1, 1)\<rparr>
      in case page_loop a None (enumerate 0 (page_field_values a)) st0 h0 of
           (Inl e, h') \<Rightarrow> (Inl e, h')
         | (Inr (st, prev), h') \<Rightarrow>
             (case processed_result st of
                None \<Rightarrow> (Inr (Processed_default, 0), h')
              | Some res \<Rightarrow>
                  (case prev of
                     None \<Rightarrow> (Inl NameError, h')
                   | Some ipg \<Rightarrow> (Inr (res, ipg + 1), h'))))"

section \<open>The shared settings and \<open>Script.run\<close>\<close>

record SharedSettingsStackHelper =
  self_CLIP_stop_at_last_layers :: pyvalue
  self_hypernetwork :: "string option"
  self_model :: string

definition enter :: "host \<Rightarrow> SharedSettingsStackHelper" where
  "enter h =
     \<lparr>self_CLIP_stop_at_last_layers = CLIP_stop_at_last_layers h,
      self_hypernetwork = sd_hypernetwork h,
      self_model = sd_model h\<rparr>"

definition exit :: "SharedSettingsStackHelper \<Rightarrow> host \<Rightarrow> host" where
  "exit self h =
     (let h1 = reload_model_weights (self_model self) h;
          h2 = load_hypernetwork (self_hypernetwork self) h1;
          h3 = apply_strength None h2
      in h3\<lparr>CLIP_stop_at_last_layers := self_CLIP_stop_at_last_layers self\<rparr>)"

text \<open>
  The \<open>with\<close> statement: \<open>__exit__\<close> runs however the body ends, and it returns \<open>None\<close>,
  so an exception of the body is raised again after it.
\<close>

definition with_SharedSettingsStackHelper ::
    "(host \<Rightarrow> (py_error + 'a) \<times> host) \<Rightarrow> host \<Rightarrow> (py_error + 'a) \<times> host" where
  "with_SharedSettingsStackHelper body h =
     (let self = enter h; (r, h') = body h in (r, exit self h'))"

definition get_attr :: "request \<Rightarrow> string \<Rightarrow> pyvalue" where
  "get_attr p name = (case attrs p name of None \<Rightarrow> VNone | Some v \<Rightarrow> v)"

definition get_fixed_seed :: "pyvalue \<Rightarrow> host \<Rightarrow> pyvalue \<times> host" where
  "get_fixed_seed v h =
     (if unfixed v then (let (n, h') = randrange 4294967294 h in (VInt n, h')) else (v, h))"

definition fix_seed :: "request \<Rightarrow> host \<Rightarrow> request \<times> host" where
  "fix_seed p h =
     (let (s, h1) = get_fixed_seed (get_attr p ''seed'') h;
          (ss, h2) = get_fixed_seed (get_attr p ''subseed'') h1
      in (p\<lparr>attrs := (attrs p)(''seed'' \<mapsto> s, ''subseed'' \<mapsto> ss)\<rparr>, h2))"

definition axis_option :: "nat \<Rightarrow> py_error + AxisOption" where
  "axis_option i = (if i < length axis_options then Inr (axis_options ! i) else Inl IndexError)"

type_synonym render_fn = "request \<Rightarrow> host \<Rightarrow> (py_error + Processed) \<times> host"

text \<open>
  The closure \<open>cell\<close> of \<open>run\<close>: the three options are applied to a copy of the request,
  then the host renders it. The render log gets the request of every call of
  \<open>process_images\<close>; the host cannot change the log.
\<close>

definition run_cell :: "render_fn \<Rightarrow> request \<Rightarrow> AxisOption \<Rightarrow> pyvalue list \<Rightarrow> AxisOption
    \<Rightarrow> pyvalue list \<Rightarrow> AxisOption \<Rightarrow> pyvalue list \<Rightarrow> cell_fn" where
  "run_cell process_images p col_options col_values row_options row_values
            page_options page_values col_value row_value page_value h =
     (case opt_apply col_options p col_value col_values h of
        (Inl e, h1) \<Rightarrow> (Inl e, h1)
      | (Inr pc1, h1) \<Rightarrow>
          (case opt_apply row_options pc1 row_value row_values h1 of
             (Inl e, h2) \<Rightarrow> (Inl e, h2)
           | (Inr pc2, h2) \<Rightarrow>
               (case opt_apply page_options pc2 page_value page_values h2 of
                  (Inl e, h3) \<Rightarrow> (Inl e, h3)
                | (Inr pc3, h3) \<Rightarrow>
                    (let (res, h4) = process_images pc3 h3
                     in (res, h4\<lparr>render_log := render_log h3 @ [pc3]\<rparr>)))))"

definition int_val :: "pyvalue \<Rightarrow> int" where
  "int_val v = (case v of VInt n \<Rightarrow> n | _ \<Rightarrow> 0)"

definition total_steps :: "request \<Rightarrow> AxisOption \<Rightarrow> pyvalue list \<Rightarrow> AxisOption \<Rightarrow> pyvalue list
    \<Rightarrow> AxisOption \<Rightarrow> pyvalue list \<Rightarrow> int" where
  "total_steps p col_options cvs row_options rvs page_options pvs =
     (let t = (if opt_label col_options = ''Steps''
               then sum_list (map int_val cvs) * int (length rvs) * int (length pvs)
               else if opt_label row_options = ''Steps''
               then sum_list (map int_val rvs) * int (length cvs) * int (length pvs)
               else if opt_label page_options = ''Steps''
               then sum_list (map int_val pvs) * int (length rvs) * int (length cvs)
               else int_val (get_attr p ''steps'')
                    * int (length rvs) * int (length cvs) * int (length pvs))
      in if is_txt2img p \<and> enable_hr p then t * 2 else t)"

definition expand_axes :: "request \<Rightarrow> host \<Rightarrow> nat \<Rightarrow> string \<Rightarrow> nat \<Rightarrow> string \<Rightarrow> nat \<Rightarrow> string
    \<Rightarrow> py_error + (AxisOption \<times> pyvalue list) \<times> (AxisOption \<times> pyvalue list)
                 \<times> (AxisOption \<times> pyvalue list)" where
  "expand_axes p h col_module col_values row_module row_values page_module page_values =
     bind_err (axis_option col_module) (\<lambda>col_options.
     bind_err (process_axis p h col_options col_values) (\<lambda>cvs.
     bind_err (axis_option row_module) (\<lambda>row_options.
     bind_err (process_axis p h row_options row_values) (\<lambda>rvs.
     bind_err (axis_option page_module) (\<lambda>page_options.
     bind_err (process_axis p h page_options page_values) (\<lambda>pvs.
     Inr ((col_options, cvs), (row_options, rvs), (page_options, pvs))))))))"

definition save_grids :: "Processed \<Rightarrow> nat \<Rightarrow> host \<Rightarrow> host" where
  "save_grids processed page_count h =
     (if grid_save h then h\<lparr>saved_grids := saved_grids h @ take page_count (images processed)\<rparr>
      else h)"

type_synonym axes =
  "(AxisOption \<times> pyvalue list) \<times> (AxisOption \<times> pyvalue list) \<times> (AxisOption \<times> pyvalue list)"

definition fix_axes :: "bool \<Rightarrow> axes \<Rightarrow> host \<Rightarrow> axes \<times> host" where
  "fix_axes no_fixed_seeds ax h =
     (if \<not> no_fixed_seeds
      then (case ax of ((col_options, cvs), (row_options, rvs), (page_options, pvs)) \<Rightarrow>
              (let (cvs', ha) = fix_axis_seeds col_options cvs h;
                   (rvs', hb) = fix_axis_seeds row_options rvs ha;
                   (pvs', hc) = fix_axis_seeds page_options pvs hb
               in (((col_options, cvs'), (row_options, rvs'), (page_options, pvs')), hc)))
      else (ax, h))"

definition sweep :: "render_fn \<Rightarrow> request \<Rightarrow> bool \<Rightarrow> bool \<Rightarrow> bool \<Rightarrow> axes
    \<Rightarrow> host \<Rightarrow> (py_error + Processed) \<times> host" where
  "sweep process_images p legend lone no_fixed_seeds ax h =
     (case fix_axes no_fixed_seeds ax h of
        (((col_options, cvs), (row_options, rvs), (page_options, pvs)), hc) \<Rightarrow>
        (let hd' = hc\<lparr>total_tqdm :=
                       total_steps p col_options cvs row_options rvs page_options pvs * n_iter p\<rparr>;
             a = \<lparr>row_field_values = rvs, col_field_values = cvs, page_field_values = pvs,
                  col_labels = map (opt_format_value col_options p (opt_label col_options)) cvs,
                  row_labels = map (opt_format_value row_options p (opt_label row_options)) rvs,
                  page_labels = map (opt_format_value page_options p (opt_label page_options)) pvs,
                  cell = run_cell process_images p col_options cvs row_options rvs page_options pvs,
                  draw_legend = legend, include_lone_images = lone\<rparr>
         in with_SharedSettingsStackHelper
              (\<lambda>h. case draw_crp_pages p a h of
                      (Inl e, h') \<Rightarrow> (Inl e, h')
                    | (Inr (processed, page_count), h') \<Rightarrow>
                        (Inr processed, save_grids processed page_count h'))
              hd'))"

definition run :: "render_fn \<Rightarrow> request \<Rightarrow> nat \<Rightarrow> string \<Rightarrow> nat \<Rightarrow> string \<Rightarrow> nat \<Rightarrow> string
    \<Rightarrow> bool \<Rightarrow> bool \<Rightarrow> bool \<Rightarrow> host \<Rightarrow> (py_error + Processed) \<times> host" where
  "run process_images p col_module col_values row_module row_values page_module page_values
       legend lone no_fixed_seeds h =
     (let (p1, h1) = (if \<not> no_fixed_seeds then fix_seed p h else (p, h));
          p2 = (if \<not> return_grid h1 then p1\<lparr>batch_size := 1\<rparr> else p1)
      in case expand_axes p2 h1 col_module col_values row_module row_values
                page_module page_values of
           Inl e \<Rightarrow> (Inl e, h1)
         | Inr axes \<Rightarrow> sweep process_images p2 legend lone no_fixed_seeds axes h1)"

section \<open>Fixtures and auxiliary notions for the properties\<close>

text \<open>
  \<open>leads r x y\<close>: the first way the backtracking matcher finds for \<open>r\<close> at \<open>x\<close> is \<open>y\<close>.
  \<open>all_digits\<close> is the shape \<^verbatim>\<open>\d+\<close>, \<open>int_token\<close> the shape \<^verbatim>\<open>[+-]?\d+\<close>.
\<close>

definition leads :: "regex \<Rightarrow> mstate \<Rightarrow> mstate \<Rightarrow> bool" where
  "leads r x y = (case rmatch r x of [] \<Rightarrow> False | z # zs \<Rightarrow> z = y)"

definition all_digits :: "string \<Rightarrow> bool" where
  "all_digits s = (s \<noteq> [] \<and> list_all isdigit s)"

definition is_sign :: "char \<Rightarrow> bool" where
  "is_sign c = (c = CHR ''+'' \<or> c = CHR ''-'')"

definition int_token :: "string \<Rightarrow> bool" where
  "int_token t = (all_digits t \<or> (t \<noteq> [] \<and> is_sign (hd t) \<and> all_digits (tl t)))"

definition token_val :: "string \<Rightarrow> int" where
  "token_val t =
     (if t \<noteq> [] \<and> hd t = CHR ''-'' then - int (digits_val (tl t))
      else if t \<noteq> [] \<and> hd t = CHR ''+'' then int (digits_val (tl t))
      else int (digits_val t))"

text \<open>
  The render configuration that must survive a sweep, read off the host.
\<close>

definition global_config :: "host \<Rightarrow> string \<times> string option \<times> pyvalue" where
  "global_config h = (sd_model h, sd_hypernetwork h, CLIP_stop_at_last_layers h)"

text \<open>A host, a request and four renderers to run the script on.\<close>

definition h0 :: host where
  "h0 =
     \<lparr>samplers_map = [''euler a'' \<mapsto> ''Euler a'', ''ddim'' \<mapsto> ''DDIM''],
      get_closet_checkpoint_match =
        (\<lambda>s. if s = ''v1-5'' then Some ''v1-5.ckpt''
              else if s = ''anime'' then Some ''anime.ckpt'' else None),
      find_closest_hypernetwork_name = (\<lambda>s. if s = ''aqua'' then Some ''aqua'' else None),
      sd_model = ''v1-5.ckpt'',
      sd_hypernetwork = None,
      hypernetwork_strength = None,
      CLIP_stop_at_last_layers = VInt 1,
      return_grid = True,
      grid_save = True,
      interrupted = False,
      job_count = 0,
      job = (0, 0),
      total_tqdm = 0,
      random_draws = (\<lambda>i. 4294967300 + int i),
      random_pos = 0,
      render_log = [],
      saved_grids = []\<rparr>"

definition p0 :: request where
  "p0 =
     \<lparr>prompt = ''a cat'',
      negative_prompt = ''blurry'',
      attrs = [''seed'' \<mapsto> VInt 42, ''subseed'' \<mapsto> VInt 7, ''steps'' \<mapsto> VInt 20],
      sampler_name = ''Euler a'',
      p_sd_model = ''v1-5.ckpt'',
      batch_size = 4,
      n_iter = 1,
      enable_hr = False,
      is_txt2img = True\<rparr>"

definition result_of :: "request \<Rightarrow> image list \<Rightarrow> Processed" where
  "result_of p ims =
     \<lparr>images = ims, all_prompts = [prompt p], all_seeds = [get_attr p ''seed''],
      infotexts = [prompt p], res_prompt = prompt p, res_seed = get_attr p ''seed''\<rparr>"

definition render_ok :: render_fn where
  "render_ok p h = (Inr (result_of p [Rendered ''RGB'' (512, 512) (length (render_log h))]), h)"

definition render_none :: render_fn where
  "render_none p h = (Inr (result_of p []), h)"

definition render_stop :: render_fn where
  "render_stop p h = (Inr (result_of p []), h\<lparr>interrupted := True\<rparr>)"

definition render_raise :: render_fn where
  "render_raise p h = (Inl (HostError ''CUDA out of memory''), h)"

definition render_last :: render_fn where
  "render_last p h =
     (Inr (result_of p [Rendered ''RGB'' (512, 512) (length (render_log h))]),
      h\<lparr>interrupted := True\<rparr>)"

definition render_gap :: render_fn where
  "render_gap p h = (if length (render_log h) = 1 then render_none p h else render_ok p h)"

definition args0 :: "render_fn \<Rightarrow> draw_args" where
  "args0 f =
     \<lparr>row_field_values = [VInt 10], col_field_values = [VInt 1, VInt 2],
      page_field_values = [VInt 0, VInt 1],
      col_labels = [Unlabelled, Unlabelled], row_labels = [Unlabelled],
      page_labels = [Unlabelled, Unlabelled],
      cell = (\<lambda>c r pg. f p0), draw_legend = False, include_lone_images = False\<rparr>"

text \<open>
  The cells of a composed page: the images given to \<open>image_grid\<close>, under any legend.
\<close>

fun grid_cells :: "image \<Rightarrow> image list" where
  "grid_cells (image_grid ims rows) = ims"
| "grid_cells (draw_grid_annotations im sz hs vs) = grid_cells im"
| "grid_cells (Rendered m sz k) = []"
| "grid_cells (Image_new m sz) = []"

text \<open>
  The invariant of the page loop: the first \<open>n\<close> images of the result are composed
  pages, each of rows times columns cells. \<open>count_of\<close> is the number of pages composed
  when the last page index is \<open>prev\<close>.
\<close>

definition cells_per_page :: "draw_args \<Rightarrow> nat" where
  "cells_per_page a = length (col_field_values a) * length (row_field_values a)"

definition composed_ok :: "draw_args \<Rightarrow> nat \<Rightarrow> Processed option \<Rightarrow> bool" where
  "composed_ok a n pr =
     (case pr of
        None \<Rightarrow> n = 0
      | Some res \<Rightarrow>
          n \<le> length (images res)
          \<and> list_all (\<lambda>im. length (grid_cells im) = cells_per_page a) (take n (images res)))"

definition count_of :: "nat option \<Rightarrow> nat" where
  "count_of prev = (case prev of None \<Rightarrow> 0 | Some i \<Rightarrow> Suc i)"

section \<open>Properties\<close>

subsection \<open>Float step ranges\<close>





subsection \<open>Seeds of an axis\<close>

lemma fix_values_spec:
  "fix_values vs h = (ws, h') \<Longrightarrow>
     length ws = length vs
     \<and> h' = h\<lparr>random_pos := random_pos h + length (filter unfixed vs)\<rparr>
     \<and> (\<forall>i<length vs. ws ! i =
            (if unfixed (vs ! i)
             then VInt (random_draws h (random_pos h + length (filter unfixed (take i vs)))
                        mod 4294967294)
             else vs ! i))"
proof (induction vs arbitrary: h ws h')
  case Nil
  then show ?case by simp
next
  case (Cons v vs)
  show ?case
  proof (cases "unfixed v")
    case True
    obtain rest h2 where r: "fix_values vs (h\<lparr>random_pos := Suc (random_pos h)\<rparr>) = (rest, h2)"
      by (cases "fix_values vs (h\<lparr>random_pos := Suc (random_pos h)\<rparr>)")
    from Cons.prems True r
    have ws: "ws = VInt (random_draws h (random_pos h) mod 4294967294) # rest" and h': "h' = h2"
      by (simp_all add: randrange_def)
    from Cons.IH [OF r] True ws h' show ?thesis
      by (auto simp: nth_Cons split: nat.splits)
  next
    case False
    obtain rest h2 where r: "fix_values vs h = (rest, h2)"
      by (cases "fix_values vs h")
    from Cons.prems False r have ws: "ws = v # rest" and h': "h' = h2"
      by simp_all
    from Cons.IH [OF r] False ws h' show ?thesis
      by (auto simp: nth_Cons split: nat.splits)
  qed
qed


text \<open>
  Claim C9: \<open>fix_axis_seeds\<close> keeps the length of the axis; on a \<open>Seed\<close> or \<open>Var. seed\<close>
  axis every value that is \<open>None\<close>, the empty string or -1 becomes a drawn integer, which
  lies in \<open>[0, 2^32 - 2)\<close>, and the k-th such value gets the k-th next draw of the
  generator, so each value has a draw of its own; every other value, and every value of
  another axis, stays as it is. When the caller does not keep unfixed seeds, \<open>run\<close> does
  this to the column, row and page axis in turn.
\<close>

theorem seeds_replaced_per_value:
  assumes "i < length vs"
  shows "length (fst (fix_axis_seeds opt vs h)) = length vs
    \<and> fst (fix_axis_seeds opt vs h) ! i =
        (if (opt_label opt = ''Seed'' \<or> opt_label opt = ''Var. seed'') \<and> unfixed (vs ! i)
         then VInt (random_draws h (random_pos h + length (filter unfixed (take i vs)))
                    mod 4294967294)
         else vs ! i)
    \<and> 0 \<le> random_draws h n mod 4294967294
    \<and> random_draws h n mod 4294967294 < 2 ^ 32 - 2
    \<and> fix_axes False ((co, cvs), (ro, rvs), (po, pvs)) g =
        (let (cvs', ga) = fix_axis_seeds co cvs g;
             (rvs', gb) = fix_axis_seeds ro rvs ga;
             (pvs', gc) = fix_axis_seeds po pvs gb
         in (((co, cvs'), (ro, rvs'), (po, pvs')), gc))"
proof -
  have "fix_values vs h = (fst (fix_values vs h), snd (fix_values vs h))"
    by simp
  from fix_values_spec [OF this] assms
  have "length (fst (fix_axis_seeds opt vs h)) = length vs"
    and "fst (fix_axis_seeds opt vs h) ! i =
        (if (opt_label opt = ''Seed'' \<or> opt_label opt = ''Var. seed'') \<and> unfixed (vs ! i)
         then VInt (random_draws h (random_pos h + length (filter unfixed (take i vs)))
                    mod 4294967294)
         else vs ! i)"
    by (auto simp: fix_axis_seeds_def)
  moreover have "0 \<le> random_draws h n mod 4294967294"
    and "random_draws h n mod 4294967294 < 2 ^ 32 - 2"
    by simp_all
  moreover have "fix_axes False ((co, cvs), (ro, rvs), (po, pvs)) g =
        (let (cvs', ga) = fix_axis_seeds co cvs g;
             (rvs', gb) = fix_axis_seeds ro rvs ga;
             (pvs', gc) = fix_axis_seeds po pvs gb
         in (((co, cvs'), (ro, rvs'), (po, pvs')), gc))"
    by (simp add: fix_axes_def)
  ultimately show ?thesis by blast
qed

text \<open>
  On the \<open>Seed\<close> axis -1, 5, -1 the third value is the second to be drawn: the generator
  of the fixture host gives 4294967300, 4294967301, ..., that is 6, 7, ... in range.
\<close>

theorem seeds_replaced_per_value_witness:
  "(2 :: nat) < length [VInt (- 1), VInt 5, VInt (- 1)]
   \<and> length (fst (fix_axis_seeds (axis_options ! 1) [VInt (- 1), VInt 5, VInt (- 1)] h0)) = 3
   \<and> fst (fix_axis_seeds (axis_options ! 1) [VInt (- 1), VInt 5, VInt (- 1)] h0) ! 2 = VInt 7"
  using seeds_replaced_per_value
    [of 2 "[VInt (- 1), VInt 5, VInt (- 1)]" "axis_options ! 1" h0 0
        "axis_options ! 1" "[]" "axis_options ! 0" "[]" "axis_options ! 0" "[]" h0]
  by (simp add: axis_options_def unfixed_def h0_def)

subsection \<open>The shared render configuration\<close>

lemma global_config_random_pos [simp]:
  "global_config (h\<lparr>random_pos := n\<rparr>) = global_config h"
  by (simp add: global_config_def)









subsection \<open>Cells without an image, and renders that raise\<close>

lemma store_cell_no_image:
  "images processed = [] \<Longrightarrow>
   store_cell lone processed st =
     st\<lparr>cache_images := cache_images st @ [Image_new (cell_mode st) (cell_size st)]\<rparr>"
  by (simp add: store_cell_def)

text \<open>
  Claim C4 as stated fails where the render callback raises: the call of \<open>cell\<close> stands
  before the \<open>try\<close>, so the exception leaves \<open>draw_crp_pages\<close> and \<open>run\<close>. Here the
  renderer raises in the first cell of a sweep over two seeds.
\<close>

theorem render_exception_propagates:
  "fst (run render_raise p0 1 ''1,2'' 0 '''' 0 '''' True False False h0)
     = Inl (HostError ''CUDA out of memory'')"
  by code_simp

text \<open>
  Claim C4, amended: when the render callback returns a result with no images, a blank
  image of the current template mode and size takes the cell's place in the page and the
  column loop goes on with the next cell (or leaves the loop if the host was interrupted
  meanwhile). When the callback raises, the exception is not caught: it ends the column
  loop, and raised in the first cell it is what \<open>draw_crp_pages\<close> ends with.
\<close>

theorem render_failure_handling:
  "(cell a c r pg (h\<lparr>job := (int (ic + (ir * ipg) * length (col_field_values a) + 1),
                             int (total_cells a))\<rparr>) = (Inr processed, h2)
      \<and> images processed = [] \<longrightarrow>
    col_loop a ipg pg ir r ((ic, c) # cs) st h =
      (if interrupted h2
       then (Inr (st\<lparr>cache_images :=
                      cache_images st @ [Image_new (cell_mode st) (cell_size st)]\<rparr>), h2)
       else col_loop a ipg pg ir r cs
              (st\<lparr>cache_images :=
                      cache_images st @ [Image_new (cell_mode st) (cell_size st)]\<rparr>) h2))
   \<and> (cell a c r pg (h\<lparr>job := (int (ic + (ir * ipg) * length (col_field_values a) + 1),
                             int (total_cells a))\<rparr>) = (Inl e, h2) \<longrightarrow>
      col_loop a ipg pg ir r ((ic, c) # cs) st h = (Inl e, h2))
   \<and> (page_field_values a = pg # pgs \<and> row_field_values a = r # rs
        \<and> col_field_values a = c # cs'
        \<and> cell a c r pg (g\<lparr>job_count := int (total_cells a) * n_iter p,
                            job := (1, int (total_cells a))\<rparr>) = (Inl e, g2) \<longrightarrow>
      draw_crp_pages p a g = (Inl e, g2))"
  by (simp add: render_cell_def store_cell_no_image draw_crp_pages_def enumerate_eq_zip upt_rec)

text \<open>
  The first cell of the fixture sweep: with a renderer that returns no image the cache
  gets a blank image of mode \<open>P\<close> and size 1 x 1, the template before any success; with
  a renderer that raises, the loop and the whole drawing end with its exception.
\<close>

theorem render_failure_handling_witness:
  "col_loop (args0 render_none) 0 (VInt 0) 0 (VInt 10) [(0, VInt 1)]
      \<lparr>cache_images = [], processed_result = None, cell_mode = ''P'', cell_size = (1, 1)\<rparr> h0
     = (Inr \<lparr>cache_images = [Image_new ''P'' (1, 1)], processed_result = None,
             cell_mode = ''P'', cell_size = (1, 1)\<rparr>,
        h0\<lparr>job := (1, 4)\<rparr>)
   \<and> col_loop (args0 render_raise) 0 (VInt 0) 0 (VInt 10) [(0, VInt 1)]
      \<lparr>cache_images = [], processed_result = None, cell_mode = ''P'', cell_size = (1, 1)\<rparr> h0
     = (Inl (HostError ''CUDA out of memory''), h0\<lparr>job := (1, 4)\<rparr>)
   \<and> draw_crp_pages p0 (args0 render_raise) h0
     = (Inl (HostError ''CUDA out of memory''), h0\<lparr>job_count := 4, job := (1, 4)\<rparr>)"
  using
    render_failure_handling
      [where a = "args0 render_none" and c = "VInt 1" and r = "VInt 10" and pg = "VInt 0"
         and h = h0 and ic = 0 and ir = 0 and ipg = 0 and processed = "result_of p0 []"
         and ?h2.0 = "h0\<lparr>job := (1, 4)\<rparr>" and cs = "[]"
         and st = "\<lparr>cache_images = [], processed_result = None, cell_mode = ''P'',
                    cell_size = (1, 1)\<rparr>"]
    render_failure_handling
      [where a = "args0 render_raise" and c = "VInt 1" and r = "VInt 10" and pg = "VInt 0"
         and h = h0 and ic = 0 and ir = 0 and ipg = 0
         and e = "HostError ''CUDA out of memory''"
         and ?h2.0 = "h0\<lparr>job := (1, 4)\<rparr>" and cs = "[]"
         and st = "\<lparr>cache_images = [], processed_result = None, cell_mode = ''P'',
                    cell_size = (1, 1)\<rparr>"
         and pgs = "[VInt 1]" and rs = "[]" and cs' = "[VInt 2]" and g = h0 and p = p0
         and ?g2.0 = "h0\<lparr>job_count := 4, job := (1, 4)\<rparr>"]
  by (simp add: args0_def render_none_def render_raise_def result_of_def total_cells_def
      p0_def h0_def)

subsection \<open>A sweep without any image\<close>

lemma col_loop_none:
  assumes "\<And>c r pg h. \<exists>pr h'. cell a c r pg h = (Inr pr, h') \<and> images pr = []"
    and "processed_result st = None"
  shows "\<exists>st' h'. col_loop a ipg pg ir r cs st h = (Inr st', h') \<and> processed_result st' = None"
  using assms(2)
proof (induction cs arbitrary: st h)
  case Nil
  then show ?case by simp
next
  case (Cons x cs)
  obtain ic c where x: "x = (ic, c)" by (cases x)
  obtain pr h2 where
    c: "cell a c r pg (h\<lparr>job := (int (ic + (ir * ipg) * length (col_field_values a) + 1),
                              int (total_cells a))\<rparr>) = (Inr pr, h2)"
    and im: "images pr = []"
    using assms(1) by blast
  let ?st = "st\<lparr>cache_images := cache_images st @ [Image_new (cell_mode st) (cell_size st)]\<rparr>"
  have n: "processed_result ?st = None" using Cons.prems by simp
  show ?case
    using Cons.IH [OF n, of h2] c im n
    by (simp add: x render_cell_def store_cell_no_image)
qed

lemma row_loop_none:
  assumes "\<And>c r pg h. \<exists>pr h'. cell a c r pg h = (Inr pr, h') \<and> images pr = []"
    and "processed_result st = None"
  shows "\<exists>st' h'. row_loop a ipg pg rs st h = (Inr st', h') \<and> processed_result st' = None"
  using assms(2)
proof (induction rs arbitrary: st h)
  case Nil
  then show ?case by simp
next
  case (Cons x rs)
  obtain ir r where x: "x = (ir, r)" by (cases x)
  obtain st1 h1 where
    c: "col_loop a ipg pg ir r (enumerate 0 (col_field_values a)) st h = (Inr st1, h1)"
    and n: "processed_result st1 = None"
    using col_loop_none [OF assms(1) Cons.prems] by blast
  show ?case
    using Cons.IH [OF n, of h1] c n by (simp add: x fill_page_def)
qed

text \<open>
  Claim C8 against the code: when there is at least one page and no cell gives an image
  (every render returns a result without images), \<open>draw_crp_pages\<close> does not reach its
  final test of \<open>processed_result\<close>: after the first page it calls
  \<open>processed_result.images.insert\<close> on \<open>None\<close>, which raises \<open>AttributeError\<close>.
\<close>

theorem no_image_sweep_raises:
  assumes "\<And>c r pg h. \<exists>pr h'. cell a c r pg h = (Inr pr, h') \<and> images pr = []"
    and "page_field_values a \<noteq> []"
    and "length (page_labels a) = length (page_field_values a)"
  shows "fst (draw_crp_pages p a h) = Inl AttributeError"
proof -
  obtain pg pgs where pgs: "page_field_values a = pg # pgs"
    using assms(2) by (cases "page_field_values a") auto
  obtain l ls where ls: "page_labels a = l # ls"
    using assms(3) pgs by (cases "page_labels a") auto
  let ?st0 = "\<lparr>cache_images = [], processed_result = None, cell_mode = ''P'', cell_size = (1, 1)\<rparr>"
  let ?h0 = "h\<lparr>job_count := int (total_cells a) * n_iter p\<rparr>"
  obtain st1 h1 where
    r: "row_loop a 0 pg (enumerate 0 (row_field_values a)) ?st0 ?h0 = (Inr st1, h1)"
    and n: "processed_result st1 = None"
    using row_loop_none [OF assms(1), of ?st0] by fastforce
  have "compose_page a 0 st1 = Inl AttributeError"
    using n ls by (simp add: compose_page_def bind_err_def Let_def)
  then show ?thesis
    using r by (simp add: draw_crp_pages_def pgs)
qed

text \<open>
  The failing input: a sweep over the seeds 1 and 2 whose renders return no image, run
  through \<open>run\<close>, and the same renderer under \<open>draw_crp_pages\<close> on the fixture axes.
\<close>

theorem no_image_sweep_raises_witness:
  "page_field_values (args0 render_none) \<noteq> []
   \<and> length (page_labels (args0 render_none)) = length (page_field_values (args0 render_none))
   \<and> fst (draw_crp_pages p0 (args0 render_none) h0) = Inl AttributeError
   \<and> fst (run render_none p0 1 ''1,2'' 0 '''' 0 '''' True False False h0) = Inl AttributeError"
proof -
  have a: "\<exists>pr h'. cell (args0 render_none) c r pg h = (Inr pr, h') \<and> images pr = []"
    for c r pg h
    by (simp add: args0_def render_none_def result_of_def)
  have b: "page_field_values (args0 render_none) \<noteq> []"
    and c: "length (page_labels (args0 render_none))
            = length (page_field_values (args0 render_none))"
    by (simp_all add: args0_def)
  have d: "fst (run render_none p0 1 ''1,2'' 0 '''' 0 '''' True False False h0)
            = Inl AttributeError"
    by code_simp
  from no_image_sweep_raises [of "args0 render_none" p0 h0, OF a b c] b c d
  show ?thesis by simp
qed

subsection \<open>How many cells a sweep composes\<close>

lemma store_cell_cache:
  "length (cache_images (store_cell lone pr st)) = Suc (length (cache_images st))"
  by (simp add: store_cell_def Let_def split: list.splits)

lemma store_cell_composed:
  "composed_ok a n (processed_result st) \<Longrightarrow>
   composed_ok a n (processed_result (store_cell lone pr st))"
  by (auto simp: store_cell_def Let_def composed_ok_def clear_lists_def
      split: list.splits option.splits)

lemma col_loop_inv:
  assumes "col_loop a ipg pg ir r cs st h = (Inr st', h')"
    and "composed_ok a n (processed_result st)"
  shows "composed_ok a n (processed_result st')
    \<and> length (cache_images st') \<le> length (cache_images st) + length cs
    \<and> (\<not> interrupted h' \<longrightarrow> length (cache_images st') = length (cache_images st) + length cs)"
  using assms
proof (induction cs arbitrary: st h)
  case Nil
  then show ?case by simp
next
  case (Cons x cs)
  obtain ic c where x: "x = (ic, c)" by (cases x)
  from Cons.prems(1) obtain pr h2 where
    c: "cell a c r pg (h\<lparr>job := (int (ic + (ir * ipg) * length (col_field_values a) + 1),
                             int (total_cells a))\<rparr>) = (Inr pr, h2)"
    by (auto simp: x render_cell_def Let_def split: prod.splits sum.splits)
  let ?st = "store_cell (include_lone_images a) pr st"
  have ok: "composed_ok a n (processed_result ?st)"
    using Cons.prems(2) by (rule store_cell_composed)
  show ?case
  proof (cases "interrupted h2")
    case True
    with Cons.prems(1) c have "st' = ?st" "h' = h2"
      by (simp_all add: x render_cell_def)
    with ok True show ?thesis by (simp add: store_cell_cache)
  next
    case False
    with Cons.prems(1) c have "col_loop a ipg pg ir r cs ?st h2 = (Inr st', h')"
      by (simp add: x render_cell_def)
    from Cons.IH [OF this ok] show ?thesis by (simp add: store_cell_cache)
  qed
qed

lemma row_loop_inv:
  assumes "row_loop a ipg pg rs st h = (Inr st', h')"
    and "composed_ok a n (processed_result st)"
    and "length (cache_images st) + length rs * length (col_field_values a) = cells_per_page a"
  shows "composed_ok a n (processed_result st') \<and> length (cache_images st') = cells_per_page a"
  using assms
proof (induction rs arbitrary: st h)
  case Nil
  then show ?case by simp
next
  case (Cons x rs)
  obtain ir r where x: "x = (ir, r)" by (cases x)
  from Cons.prems(1) obtain st1 h1 where
    c: "col_loop a ipg pg ir r (enumerate 0 (col_field_values a)) st h = (Inr st1, h1)"
    by (auto simp: x split: prod.splits sum.splits)
  from col_loop_inv [OF c Cons.prems(2)]
  have ok: "composed_ok a n (processed_result st1)"
    and le: "length (cache_images st1) \<le> length (cache_images st) + length (col_field_values a)"
    and eq: "\<not> interrupted h1 \<Longrightarrow>
      length (cache_images st1) = length (cache_images st) + length (col_field_values a)"
    by simp_all
  show ?case
  proof (cases "interrupted h1")
    case True
    with Cons.prems(1) c have "st' = fill_page a st1" by (simp add: x)
    moreover have "length (cache_images st1) \<le> cells_per_page a"
      using le Cons.prems(3) by simp
    ultimately show ?thesis
      using ok by (simp add: fill_page_def cells_per_page_def)
  next
    case False
    with Cons.prems(1) c have r: "row_loop a ipg pg rs st1 h1 = (Inr st', h')"
      by (simp add: x)
    have "length (cache_images st1) + length rs * length (col_field_values a) = cells_per_page a"
      using eq [OF False] Cons.prems(3) by simp
    from Cons.IH [OF r ok this] show ?thesis .
  qed
qed

lemma compose_page_inv:
  assumes "compose_page a n st = Inr st'"
    and "composed_ok a n (processed_result st)"
    and "length (cache_images st) = cells_per_page a"
  shows "composed_ok a (Suc n) (processed_result st') \<and> cache_images st' = []"
proof -
  from assms(1) obtain res where res: "processed_result st = Some res"
    by (auto simp: compose_page_def bind_err_def Let_def split: option.splits if_splits list.splits)
  from assms(2) res have n: "n \<le> length (images res)"
    and all: "list_all (\<lambda>im. length (grid_cells im) = cells_per_page a) (take n (images res))"
    by (simp_all add: composed_ok_def)
  have t: "take (Suc n) (insert_at n grid (images res)) = take n (images res) @ [grid]" for grid
    using n by (simp add: insert_at_def)
  have l: "length (insert_at n grid (images res)) = Suc (length (images res))" for grid
    by (simp add: insert_at_def)
  show ?thesis
    using assms(1,3) res n all
    by (auto simp: compose_page_def bind_err_def Let_def composed_ok_def t l
        simp del: take_Suc_Cons split: if_splits list.splits)
qed

lemma page_loop_inv:
  assumes "page_loop a prev (enumerate n pgs) st h = (Inr (st', prev'), h')"
    and "composed_ok a n (processed_result st)"
    and "cache_images st = []"
    and "count_of prev = n"
  shows "composed_ok a (count_of prev') (processed_result st')
    \<and> count_of prev' \<le> n + length pgs
    \<and> (\<not> interrupted h' \<longrightarrow> count_of prev' = n + length pgs)"
  using assms
proof (induction pgs arbitrary: n prev st h)
  case Nil
  then show ?case by simp
next
  case (Cons pg pgs)
  from Cons.prems(1) obtain st1 h1 where
    r: "row_loop a n pg (enumerate 0 (row_field_values a)) st h = (Inr st1, h1)"
    by (auto split: prod.splits sum.splits)
  have "length (cache_images st)
        + length (enumerate 0 (row_field_values a)) * length (col_field_values a)
        = cells_per_page a"
    using Cons.prems(3) by (simp add: cells_per_page_def)
  from row_loop_inv [OF r Cons.prems(2) this]
  have ok1: "composed_ok a n (processed_result st1)"
    and len: "length (cache_images st1) = cells_per_page a"
    by simp_all
  from Cons.prems(1) r obtain st2 where c: "compose_page a n st1 = Inr st2"
    by (auto split: sum.splits)
  from compose_page_inv [OF c ok1 len]
  have ok2: "composed_ok a (Suc n) (processed_result st2)" and e2: "cache_images st2 = []"
    by simp_all
  show ?case
  proof (cases "interrupted h1")
    case True
    with Cons.prems(1) r c have "st' = st2" "prev' = Some n" "h' = h1"
      by simp_all
    with ok2 True show ?thesis by (simp add: count_of_def)
  next
    case False
    with Cons.prems(1) r c
    have "page_loop a (Some n) (enumerate (Suc n) pgs) st2 h1 = (Inr (st', prev'), h')"
      by simp
    from Cons.IH [OF this ok2 e2] show ?thesis by (simp add: count_of_def)
  qed
qed

lemma sum_take_const:
  "k \<le> length xs \<Longrightarrow> list_all (\<lambda>x. f x = c) (take k xs) \<Longrightarrow>
   sum_list (map f (take k xs)) = k * c"
proof (induction xs arbitrary: k)
  case Nil
  then show ?case by simp
next
  case (Cons x xs)
  then show ?case by (cases k) auto
qed

text \<open>
  Claim C5 as stated fails under an interrupt: with one column, one row and two pages,
  and a host that is interrupted while the first cell renders, one page of one cell is
  composed and one render is made, not pages x rows x cols = 2.
\<close>

theorem interrupted_sweep_composes_fewer_cells:
  "map_sum id (\<lambda>res. sum_list (map (\<lambda>im. length (grid_cells im)) (images res)))
     (fst (run render_last p0 1 ''1'' 0 '''' 4 ''10,20'' False False False h0)) = Inr 1
   \<and> length (render_log (snd (run render_last p0 1 ''1'' 0 '''' 4 ''10,20''
                                 False False False h0))) = 1
   \<and> map_sum id length (process_axis p0 h0 (axis_options ! 1) ''1'') = Inr 1
   \<and> map_sum id length (process_axis p0 h0 (axis_options ! 0) '''') = Inr 1
   \<and> map_sum id length (process_axis p0 h0 (axis_options ! 4) ''10,20'') = Inr 2"
  by code_simp

text \<open>
  Claim C5, amended: when \<open>draw_crp_pages\<close> returns \<open>k\<close> pages, the first \<open>k\<close> images of
  its result are the composed pages, each of exactly rows x cols cells (renders and blank
  placeholders together), so the cells composed are \<open>k\<close> x rows x cols; \<open>k\<close> is at most
  the number of pages, and it is the number of pages when the host is not interrupted at
  the end. After an interrupt the remaining pages are not rendered.
\<close>

theorem composed_cells_count:
  assumes "draw_crp_pages p a h = (Inr (res, k), h')"
  shows "k \<le> length (page_field_values a)
    \<and> (\<not> interrupted h' \<longrightarrow> k = length (page_field_values a))
    \<and> k \<le> length (images res)
    \<and> list_all (\<lambda>im. length (grid_cells im)
                       = length (col_field_values a) * length (row_field_values a))
         (take k (images res))
    \<and> sum_list (map (\<lambda>im. length (grid_cells im)) (take k (images res)))
        = k * (length (col_field_values a) * length (row_field_values a))"
proof -
  let ?st0 = "\<lparr>cache_images = [], processed_result = None, cell_mode = ''P'', cell_size = (1, 1)\<rparr>"
  let ?h0 = "h\<lparr>job_count := int (total_cells a) * n_iter p\<rparr>"
  from assms obtain st prev h1 where
    pl1: "page_loop a None (enumerate 0 (page_field_values a)) ?st0 ?h0 = (Inr (st, prev), h1)"
    by (auto simp: draw_crp_pages_def Let_def split: prod.splits sum.splits)
  with assms have "h1 = h'"
    by (auto simp: draw_crp_pages_def Let_def split: option.splits)
  with pl1 have
    pl: "page_loop a None (enumerate 0 (page_field_values a)) ?st0 ?h0 = (Inr (st, prev), h')"
    by simp
  have "composed_ok a 0 (processed_result ?st0)" "cache_images ?st0 = []" "count_of None = 0"
    by (simp_all add: composed_ok_def count_of_def)
  from page_loop_inv [OF pl this]
  have ok: "composed_ok a (count_of prev) (processed_result st)"
    and le: "count_of prev \<le> length (page_field_values a)"
    and eq: "\<not> interrupted h' \<longrightarrow> count_of prev = length (page_field_values a)"
    by simp_all
  show ?thesis
  proof (cases "processed_result st")
    case None
    with assms pl have "k = 0" by (simp add: draw_crp_pages_def)
    moreover from None ok have "count_of prev = 0" by (simp add: composed_ok_def)
    ultimately show ?thesis using eq by simp
  next
    case (Some r)
    with assms pl obtain ipg where "prev = Some ipg" "k = Suc ipg" "res = r"
      by (auto simp: draw_crp_pages_def split: option.splits)
    then have k: "count_of prev = k" by (simp add: count_of_def)
    from ok Some \<open>res = r\<close> k have a1: "k \<le> length (images res)"
      and a2: "list_all (\<lambda>im. length (grid_cells im) = cells_per_page a) (take k (images res))"
      by (simp_all add: composed_ok_def)
    from sum_take_const [OF a1 a2] a1 a2 le eq k show ?thesis
      by (simp add: cells_per_page_def)
  qed
qed

text \<open>
  On the fixture axes (two columns, one row, two pages): a sweep that is never
  interrupted composes both pages, four cells; a sweep interrupted in its first cell
  composes one page, whose second cell is a placeholder.
\<close>

theorem composed_cells_count_witness:
  "fst (draw_crp_pages p0 (args0 render_ok) h0)
     = Inr (\<lparr>images = [image_grid [Rendered ''RGB'' (512, 512) 0,
                                      Rendered ''RGB'' (512, 512) 0] 1,
                          image_grid [Rendered ''RGB'' (512, 512) 0,
                                      Rendered ''RGB'' (512, 512) 0] 1],
             all_prompts = [[], []], all_seeds = [VInt (- 1), VInt (- 1)],
             infotexts = [[], []], res_prompt = ''a cat'', res_seed = VInt 42\<rparr>, 2)
   \<and> \<not> interrupted (snd (draw_crp_pages p0 (args0 render_ok) h0))
   \<and> length (page_field_values (args0 render_ok)) = 2
   \<and> fst (draw_crp_pages p0 (args0 render_last) h0)
     = Inr (\<lparr>images = [image_grid [Rendered ''RGB'' (512, 512) 0,
                                      Image_new ''RGB'' (512, 512)] 1],
             all_prompts = [[]], all_seeds = [VInt (- 1)],
             infotexts = [[]], res_prompt = ''a cat'', res_seed = VInt 42\<rparr>, 1)
   \<and> interrupted (snd (draw_crp_pages p0 (args0 render_last) h0))"
proof -
  let ?R2 = "\<lparr>images = [image_grid [Rendered ''RGB'' (512, 512) 0,
                                      Rendered ''RGB'' (512, 512) 0] 1,
                          image_grid [Rendered ''RGB'' (512, 512) 0,
                                      Rendered ''RGB'' (512, 512) 0] 1],
             all_prompts = [[], []], all_seeds = [VInt (- 1), VInt (- 1)],
             infotexts = [[], []], res_prompt = ''a cat'', res_seed = VInt 42\<rparr>"
  let ?R1 = "\<lparr>images = [image_grid [Rendered ''RGB'' (512, 512) 0,
                                      Image_new ''RGB'' (512, 512)] 1],
             all_prompts = [[]], all_seeds = [VInt (- 1)],
             infotexts = [[]], res_prompt = ''a cat'', res_seed = VInt 42\<rparr>"
  have f2: "fst (draw_crp_pages p0 (args0 render_ok) h0) = Inr (?R2, 2)"
    by code_simp
  have f1: "fst (draw_crp_pages p0 (args0 render_last) h0) = Inr (?R1, 1)"
    by code_simp
  have i1: "interrupted (snd (draw_crp_pages p0 (args0 render_last) h0))"
    by code_simp
  from f2 have e2: "draw_crp_pages p0 (args0 render_ok) h0
      = (Inr (?R2, 2), snd (draw_crp_pages p0 (args0 render_ok) h0))"
    by (simp add: prod_eq_iff)
  from f1 have e1: "draw_crp_pages p0 (args0 render_last) h0
      = (Inr (?R1, 1), snd (draw_crp_pages p0 (args0 render_last) h0))"
    by (simp add: prod_eq_iff)
  have n2: "\<not> interrupted (snd (draw_crp_pages p0 (args0 render_ok) h0))"
  proof
    assume "interrupted (snd (draw_crp_pages p0 (args0 render_ok) h0))"
    then show False by code_simp
  qed
  from composed_cells_count [OF e2] composed_cells_count [OF e1] f2 f1 i1 n2
  show ?thesis by (simp add: args0_def)
qed

subsection \<open>Validation before the first render\<close>

lemma confirm_samplers_rejects:
  "x \<in> set xs \<Longrightarrow> confirm_samplers p [x] h \<noteq> Inr () \<Longrightarrow> samplers_map h' = samplers_map h \<Longrightarrow>
   isl (confirm_samplers p' xs h')"
  by (induction xs) (auto split: pyvalue.splits if_splits)

lemma confirm_checkpoints_rejects:
  "x \<in> set xs \<Longrightarrow> confirm_checkpoints p [x] h \<noteq> Inr () \<Longrightarrow>
   get_closet_checkpoint_match h' = get_closet_checkpoint_match h \<Longrightarrow>
   isl (confirm_checkpoints p' xs h')"
  by (induction xs) (auto split: pyvalue.splits if_splits)

lemma confirm_hypernetworks_rejects:
  "x \<in> set xs \<Longrightarrow> confirm_hypernetworks p [x] h \<noteq> Inr () \<Longrightarrow>
   find_closest_hypernetwork_name h' = find_closest_hypernetwork_name h \<Longrightarrow>
   isl (confirm_hypernetworks p' xs h')"
  by (induction xs) (auto split: pyvalue.splits if_splits)

lemma confirm_table:
  "map opt_confirm axis_options =
     [None, None, None, None, None, None, None, None,
      Some confirm_samplers, Some confirm_checkpoints, Some confirm_hypernetworks,
      None, None, None, None, None, None, None, None, None]"
  by (simp add: axis_options_def)

lemma confirm_options:
  assumes "k < length axis_options" and "opt_confirm (axis_options ! k) = Some confirm"
  shows "(k = 8 \<and> confirm = confirm_samplers) \<or> (k = 9 \<and> confirm = confirm_checkpoints)
         \<or> (k = 10 \<and> confirm = confirm_hypernetworks)"
proof -
  let ?tbl = "[None, None, None, None, None, None, None, None,
      Some confirm_samplers, Some confirm_checkpoints, Some confirm_hypernetworks,
      None, None, None, None, None, None, None, None, None]"
  have all: "\<forall>i<20. ?tbl ! i = Some confirm \<longrightarrow>
      (i = 8 \<and> confirm = confirm_samplers) \<or> (i = 9 \<and> confirm = confirm_checkpoints)
         \<or> (i = 10 \<and> confirm = confirm_hypernetworks)"
    by (simp add: numeral_eq_Suc All_less_Suc)
  from assms(1) have k: "k < 20" by (simp add: axis_options_def)
  have "map opt_confirm axis_options ! k = Some confirm"
    using assms by simp
  then have "?tbl ! k = Some confirm"
    by (simp only: confirm_table)
  with all k show ?thesis by blast
qed

lemma option_label_type:
  assumes "k = 8 \<or> k = 9 \<or> k = 10"
  shows "opt_label (axis_options ! k) \<noteq> ''Nothing'' \<and> opt_type (axis_options ! k) = str_type"
  using assms by (elim disjE) (simp_all add: axis_options_def)

lemma process_axis_confirmed:
  assumes "k < length axis_options" and "opt_confirm (axis_options ! k) = Some confirm"
  shows "process_axis p h (axis_options ! k) vals =
           bind_err (csv_reader vals) (\<lambda>rows.
             bind_err (confirm p (map (\<lambda>f. VStr (strip f)) rows) h)
               (\<lambda>u. Inr (map (\<lambda>f. VStr (strip f)) rows)))"
proof -
  from confirm_options [OF assms] have "k = 8 \<or> k = 9 \<or> k = 10" by auto
  from option_label_type [OF this] show ?thesis
    by (simp add: process_axis_def typed_values_def bind_err_def comp_def assms(2)
        split: sum.splits)
qed

lemma process_axis_rejects:
  assumes "k < length axis_options" and "opt_confirm (axis_options ! k) = Some confirm"
    and "csv_reader vals = Inr flds" and "v \<in> set flds"
    and "confirm p [VStr (strip v)] h \<noteq> Inr ()"
    and "samplers_map h' = samplers_map h"
    and "get_closet_checkpoint_match h' = get_closet_checkpoint_match h"
    and "find_closest_hypernetwork_name h' = find_closest_hypernetwork_name h"
  shows "isl (process_axis p' h' (axis_options ! k) vals)"
proof -
  have m: "VStr (strip v) \<in> set (map (\<lambda>f. VStr (strip f)) flds)"
    using assms(4) by auto
  have "isl (confirm p' (map (\<lambda>f. VStr (strip f)) flds) h')"
    using confirm_options [OF assms(1,2)] assms(5-8)
      confirm_samplers_rejects [OF m, of p h h' p']
      confirm_checkpoints_rejects [OF m, of p h h' p']
      confirm_hypernetworks_rejects [OF m, of p h h' p']
    by auto
  then show ?thesis
    unfolding process_axis_confirmed [OF assms(1,2)]
    by (auto simp: bind_err_def assms(3) split: sum.splits)
qed

lemma bind_err_isl:
  "(\<And>v. x = Inr v \<Longrightarrow> isl (f v)) \<Longrightarrow> isl (bind_err x f)"
  by (cases x) (simp_all add: bind_err_def)

lemma expand_axes_rejects:
  assumes "isl (process_axis p h (axis_options ! k) vals)" and "k < length axis_options"
    and "(k, vals) = (col_module, col_values) \<or> (k, vals) = (row_module, row_values)
         \<or> (k, vals) = (page_module, page_values)"
  shows "isl (expand_axes p h col_module col_values row_module row_values page_module page_values)"
proof -
  have ax: "axis_option k = Inr v \<Longrightarrow> v = axis_options ! k" for v
    using assms(2) by (simp add: axis_option_def)
  have no: "process_axis p h (axis_options ! k) vals \<noteq> Inr w" for w
    using assms(1) by auto
  from assms(3) consider
      (col) "k = col_module" "vals = col_values"
    | (row) "k = row_module" "vals = row_values"
    | (page) "k = page_module" "vals = page_values"
    by auto
  then show ?thesis
  proof cases
    case col
    with ax no have "axis_option col_module = Inr v \<Longrightarrow> process_axis p h v col_values \<noteq> Inr w"
      for v w by auto
    then show ?thesis
      unfolding expand_axes_def by (auto intro!: bind_err_isl)
  next
    case row
    with ax no have "axis_option row_module = Inr v \<Longrightarrow> process_axis p h v row_values \<noteq> Inr w"
      for v w by auto
    then show ?thesis
      unfolding expand_axes_def by (auto intro!: bind_err_isl)
  next
    case page
    with ax no have "axis_option page_module = Inr v \<Longrightarrow> process_axis p h v page_values \<noteq> Inr w"
      for v w by auto
    then show ?thesis
      unfolding expand_axes_def by (auto intro!: bind_err_isl)
  qed
qed

lemma get_fixed_seed_host: "\<exists>n. snd (get_fixed_seed v h) = h\<lparr>random_pos := n\<rparr>"
proof (cases "unfixed v")
  case True
  then have "snd (get_fixed_seed v h) = h\<lparr>random_pos := Suc (random_pos h)\<rparr>"
    by (simp add: get_fixed_seed_def randrange_def)
  then show ?thesis ..
next
  case False
  have "h = h\<lparr>random_pos := random_pos h\<rparr>" by simp
  with False show ?thesis by (metis get_fixed_seed_def snd_conv)
qed

lemma fix_seed_host: "\<exists>n. snd (fix_seed p h) = h\<lparr>random_pos := n\<rparr>"
proof -
  obtain n where a: "snd (get_fixed_seed (get_attr p ''seed'') h) = h\<lparr>random_pos := n\<rparr>"
    using get_fixed_seed_host by blast
  obtain m where b: "snd (get_fixed_seed (get_attr p ''subseed'') (h\<lparr>random_pos := n\<rparr>))
      = h\<lparr>random_pos := n\<rparr>\<lparr>random_pos := m\<rparr>"
    using get_fixed_seed_host by blast
  have "snd (fix_seed p h) = h\<lparr>random_pos := m\<rparr>"
    using a b by (simp add: fix_seed_def case_prod_beta)
  then show ?thesis ..
qed

text \<open>
  Claim C6: let one of the three axes be bound to an option that has a \<open>confirm\<close>
  validator (\<open>Sampler\<close>, \<open>Checkpoint name\<close> or \<open>Hypernetwork\<close>), and let one field of its
  text be a value the validator rejects. Then \<open>run\<close> ends with an exception, raised while
  the axes are expanded, and the render log is what it was: no render was made. The
  validator is called once per axis, on the whole list of the axis's values.
\<close>

theorem invalid_axis_value_rejected_before_render:
  assumes "k < length axis_options"
    and "opt_confirm (axis_options ! k) = Some confirm"
    and "(k, vals) = (col_module, col_values) \<or> (k, vals) = (row_module, row_values)
         \<or> (k, vals) = (page_module, page_values)"
    and "csv_reader vals = Inr flds"
    and "v \<in> set flds"
    and "confirm p [VStr (strip v)] h \<noteq> Inr ()"
  shows "isl (fst (run process_images p col_module col_values row_module row_values
                     page_module page_values legend lone no_fixed_seeds h))
    \<and> render_log (snd (run process_images p col_module col_values row_module row_values
                          page_module page_values legend lone no_fixed_seeds h)) = render_log h
    \<and> process_axis p h (axis_options ! k) vals =
        bind_err (confirm p (map (\<lambda>f. VStr (strip f)) flds) h)
          (\<lambda>u. Inr (map (\<lambda>f. VStr (strip f)) flds))"
proof -
  obtain p1 h1 where ph: "(if \<not> no_fixed_seeds then fix_seed p h else (p, h)) = (p1, h1)"
    by (cases "if \<not> no_fixed_seeds then fix_seed p h else (p, h)")
  obtain n where h1: "h1 = h\<lparr>random_pos := n\<rparr>"
  proof (cases no_fixed_seeds)
    case True
    with ph have "h1 = h\<lparr>random_pos := random_pos h\<rparr>" by simp
    then show ?thesis by (rule that)
  next
    case False
    with ph fix_seed_host [of p h] show ?thesis by (auto intro: that)
  qed
  let ?p2 = "if \<not> return_grid h1 then p1\<lparr>batch_size := 1\<rparr> else p1"
  have "isl (process_axis ?p2 h1 (axis_options ! k) vals)"
    by (rule process_axis_rejects [OF assms(1,2,4,5,6)]) (simp_all add: h1)
  from expand_axes_rejects [OF this assms(1,3)]
  obtain e where "expand_axes ?p2 h1 col_module col_values row_module row_values
      page_module page_values = Inl e"
    by (auto simp: isl_def)
  then have "run process_images p col_module col_values row_module row_values
                     page_module page_values legend lone no_fixed_seeds h = (Inl e, h1)"
    by (simp add: run_def ph Let_def)
  moreover have "process_axis p h (axis_options ! k) vals =
        bind_err (confirm p (map (\<lambda>f. VStr (strip f)) flds) h)
          (\<lambda>u. Inr (map (\<lambda>f. VStr (strip f)) flds))"
    by (simp add: process_axis_confirmed [OF assms(1,2)] assms(4) bind_err_def)
  ultimately show ?thesis by (simp add: h1)
qed

text \<open>
  A \<open>Sampler\<close> column axis with the unknown name \<open>bogus\<close> in second place.
\<close>

theorem invalid_axis_value_rejected_before_render_witness:
  "(8 :: nat) < length axis_options
   \<and> opt_confirm (axis_options ! 8) = Some confirm_samplers
   \<and> csv_reader ''Euler a,bogus'' = Inr [''Euler a'', ''bogus'']
   \<and> ''bogus'' \<in> set [''Euler a'', ''bogus'']
   \<and> confirm_samplers p0 [VStr (strip ''bogus'')] h0 \<noteq> Inr ()
   \<and> isl (fst (run render_ok p0 8 ''Euler a,bogus'' 0 '''' 0 '''' True False False h0))
   \<and> render_log (snd (run render_ok p0 8 ''Euler a,bogus'' 0 '''' 0 ''''
                          True False False h0)) = []"
proof -
  have a: "(8 :: nat) < length axis_options"
    and b: "opt_confirm (axis_options ! 8) = Some confirm_samplers"
    by (simp_all add: axis_options_def)
  have c: "csv_reader ''Euler a,bogus'' = Inr [''Euler a'', ''bogus'']"
    by code_simp
  have d: "''bogus'' \<in> set [''Euler a'', ''bogus'']"
    by simp
  have e: "confirm_samplers p0 [VStr (strip ''bogus'')] h0 \<noteq> Inr ()"
    by code_simp
  have f: "(8, ''Euler a,bogus'') = (8 :: nat, ''Euler a,bogus'')
           \<or> (8, ''Euler a,bogus'') = (0 :: nat, '''')
           \<or> (8, ''Euler a,bogus'') = (0 :: nat, '''')"
    by simp
  have g: "render_log h0 = []"
    by (simp add: h0_def)
  from invalid_axis_value_rejected_before_render
         [OF a b f c d e, of render_ok True False False] a b c d e g
  show ?thesis by simp
qed

subsection \<open>Prompt search and replace\<close>

text \<open>
  Claim C7 as stated fails in its second half: the \<open>Prompt S/R\<close> option has no validator,
  so expanding an axis whose first token is in neither prompt succeeds; the check is made
  by \<open>apply_prompt\<close> in each cell, and it can fail after cells were rendered. With prompt
  \<open>a cat\<close>, columns \<open>cat, dog\<close> and rows \<open>at, og\<close>, the first cell is rendered and the
  second raises, because \<open>at\<close> is not in \<open>a dog\<close>.
\<close>

theorem prompt_token_not_checked_at_expansion:
  "process_axis p0 h0 (axis_options ! 6) ''dog,bird'' = Inr [VStr ''dog'', VStr ''bird'']
   \<and> \<not> contains ''dog'' (prompt p0) \<and> \<not> contains ''dog'' (negative_prompt p0)
   \<and> fst (run render_ok p0 6 ''cat,dog'' 6 ''at,og'' 0 '''' True False False h0)
       = Inl (RuntimeError ''Prompt S/R did not find at in prompt or negative prompt.'')
   \<and> length (render_log (snd (run render_ok p0 6 ''cat,dog'' 6 ''at,og'' 0 ''''
                                 True False False h0))) = 1"
  by code_simp

text \<open>
  Claim C7, amended: \<open>apply_prompt\<close> replaces the axis's first token by the cell's value in
  the prompt and in the negative prompt (\<open>cat\<close> by \<open>dog\<close> in \<open>a cat\<close> gives \<open>a dog\<close>); when
  the token is in neither, it raises \<open>RuntimeError\<close>. Axis expansion does not look at the
  prompts (the option has no validator): the error is raised when the option is applied
  in a cell, before that cell's render, which is not called.
\<close>

theorem prompt_replace_checked_at_apply:
  "apply_prompt p (VStr new) (VStr t # xs) h =
     (if contains t (prompt p) \<or> contains t (negative_prompt p)
      then (Inr (p\<lparr>prompt := replace (prompt p) t new,
                    negative_prompt := replace (negative_prompt p) t new\<rparr>), h)
      else (Inl (RuntimeError (''Prompt S/R did not find '' @ t
                               @ '' in prompt or negative prompt.'')), h))
   \<and> replace ''a cat'' ''cat'' ''dog'' = ''a dog''
   \<and> opt_apply (axis_options ! 6) = apply_prompt
   \<and> opt_confirm (axis_options ! 6) = None
   \<and> process_axis p h (axis_options ! 6) vals =
       bind_err (csv_reader vals) (\<lambda>rows. Inr (map (\<lambda>f. VStr (strip f)) rows))
   \<and> (\<not> contains t (prompt p) \<and> \<not> contains t (negative_prompt p) \<longrightarrow>
        run_cell process_images p (axis_options ! 6) (VStr t # xs) row_options rvs
          page_options pvs (VStr new) r pg h
        = (Inl (RuntimeError (''Prompt S/R did not find '' @ t
                              @ '' in prompt or negative prompt.'')), h))"
  by (simp add: apply_prompt_def axis_options_def process_axis_def typed_values_def
      run_cell_def replace_def comp_def bind_err_def split: sum.splits)

text \<open>
  On the fixture request (prompt \<open>a cat\<close>, negative prompt \<open>blurry\<close>): \<open>cat\<close> is replaced;
  \<open>dog\<close> is found in neither prompt, and the cell ends before its render.
\<close>

theorem prompt_replace_checked_at_apply_witness:
  "apply_prompt p0 (VStr ''dog'') [VStr ''cat'', VStr ''dog''] h0
     = (Inr (p0\<lparr>prompt := ''a dog'', negative_prompt := ''blurry''\<rparr>), h0)
   \<and> \<not> contains ''dog'' (prompt p0) \<and> \<not> contains ''dog'' (negative_prompt p0)
   \<and> run_cell render_ok p0 (axis_options ! 6) [VStr ''dog'', VStr ''bird'']
         (axis_options ! 0) [VInt 0] (axis_options ! 0) [VInt 0]
         (VStr ''bird'') (VInt 0) (VInt 0) h0
     = (Inl (RuntimeError ''Prompt S/R did not find dog in prompt or negative prompt.''), h0)"
  using
    prompt_replace_checked_at_apply
      [where p = p0 and new = "''dog''" and t = "''cat''" and xs = "[VStr ''dog'']" and h = h0]
    prompt_replace_checked_at_apply
      [where p = p0 and new = "''bird''" and t = "''dog''" and xs = "[VStr ''bird'']" and h = h0
         and process_images = render_ok and row_options = "axis_options ! 0"
         and rvs = "[VInt 0]" and page_options = "axis_options ! 0" and pvs = "[VInt 0]"
         and r = "VInt 0" and pg = "VInt 0"]
  by (simp add: p0_def replace_def)

end
